theory Spec2Isabelle
  imports Complex_Main "HOL-Library.Word" "HOL-Library.Monad_Syntax"
begin

section \<open>Common ground: errors, results, notification hooks, dynamic values\<close>

text \<open>
  The exceptions thrown in \<^verbatim>\<open>PropertyStandard.cpp\<close>. \<open>BadCast\<close> is \<^verbatim>\<open>std::bad_cast\<close>
  (thrown by a failed \<^verbatim>\<open>dynamic_cast\<close> to a reference and by \<^verbatim>\<open>throw bad_cast()\<close>),
  \<open>PyException\<close> is \<^verbatim>\<open>Py::Exception\<close> (a failed argument parse). The last two are
  not exceptions of the source; they mark the two places where the model stops because the
  source does something C++ leaves open: \<open>UndefinedBehaviour\<close> for \<^verbatim>\<open>_lValueList[0]\<close> on an
  empty vector, \<open>StreamExhausted\<close> for a read past the end of the buffer (the source
  does not test the stream, and what it then stores is not modelled).
\<close>

datatype error =
    TypeError string
  | ValueError string
  | RuntimeError string
  | BadCast
  | PyException
  | UndefinedBehaviour
  | StreamExhausted

text \<open>
  A member function either returns, leaving the cell in a new state, or throws, leaving
  the cell in the state it had reached when the exception left the function.
\<close>

datatype 's result = Returns 's | Throws error 's

text \<open>
  What a cell tells its container. The first two are \<^verbatim>\<open>aboutToSetValue()\<close> and
  \<^verbatim>\<open>hasSetValue()\<close>; the other three are the calls \<^verbatim>\<open>PropertyString::setValue\<close> makes on
  the application and on the cells named by a proposed label change.
\<close>

datatype hook =
    AboutToSetValue
  | HasSetValue
  | SetActiveTransaction string
  | PasteChange nat
  | CloseActiveTransaction

record Property =
  hooks :: "hook list"

definition aboutToSetValue :: "'a Property_scheme \<Rightarrow> 'a Property_scheme" where
  "aboutToSetValue p = p\<lparr>hooks := hooks p @ [AboutToSetValue]\<rparr>"

definition hasSetValue :: "'a Property_scheme \<Rightarrow> 'a Property_scheme" where
  "hasSetValue p = p\<lparr>hooks := hooks p @ [HasSetValue]\<rparr>"

text \<open>
  The dynamic (Python) values the setters test for. A Python \<^verbatim>\<open>int\<close> is unbounded; a
  Python \<^verbatim>\<open>float\<close> is a C \<^verbatim>\<open>double\<close>, represented here by the real number it denotes
  (NaN and the infinities are not represented; comparison and assignment of doubles,
  the only operations the setters perform on them, are exact). \<open>PyObject n\<close> is an
  object of any other type, \<open>n\<close> its \<^verbatim>\<open>tp_name\<close>.
\<close>

datatype pyobj =
    PyLong int
  | PyFloat real
  | PyUnicode string
  | PyNone
  | PyTuple "pyobj list"
  | PyDict "(string \<times> pyobj) list"
  | PyObject string

fun tp_name :: "pyobj \<Rightarrow> string" where
  "tp_name (PyLong _) = ''int''"
| "tp_name (PyFloat _) = ''float''"
| "tp_name (PyUnicode _) = ''str''"
| "tp_name PyNone = ''NoneType''"
| "tp_name (PyTuple _) = ''tuple''"
| "tp_name (PyDict _) = ''dict''"
| "tp_name (PyObject n) = n"

definition LONG_MIN :: int where "LONG_MIN = - (2 ^ 63)"
definition LONG_MAX :: int where "LONG_MAX = 2 ^ 63 - 1"
definition INT_MIN :: int where "INT_MIN = - (2 ^ 31)"
definition INT_MAX :: int where "INT_MAX = 2 ^ 31 - 1"

text \<open>\<^verbatim>\<open>std::numeric_limits<double>::max()\<close> and \<^verbatim>\<open>epsilon()\<close>.\<close>

definition DBL_MAX :: real where "DBL_MAX = (2 - 1 / 2 ^ 52) * 2 ^ 1023"
definition DBL_EPSILON :: real where "DBL_EPSILON = 1 / 2 ^ 52"

text \<open>
  \<^verbatim>\<open>PyLong_AsLong\<close>: the value when it fits a C \<^verbatim>\<open>long\<close> (64 bits), otherwise \<open>-1\<close> (with
  the interpreter's error indicator set, which none of the callers below tests).
\<close>

definition PyLong_AsLong :: "int \<Rightarrow> int" where
  "PyLong_AsLong n = (if LONG_MIN \<le> n \<and> n \<le> LONG_MAX then n else - 1)"

text \<open>
  The conversion of an integer to a double is exact up to \<open>2 ^ 53\<close> in magnitude; beyond
  that it yields the nearest double, which the functions below take as the parameter
  \<open>rnd\<close>. \<open>long_to_double\<close> is \<^verbatim>\<open>static_cast<double>\<close> of a \<^verbatim>\<open>long\<close> (and the implicit
  conversion in \<^verbatim>\<open>_dValue = PyLong_AsLong(value)\<close>).
\<close>

definition int_to_double :: "(int \<Rightarrow> real) \<Rightarrow> int \<Rightarrow> real" where
  "int_to_double rnd n = (if \<bar>n\<bar> \<le> 2 ^ 53 then real_of_int n else rnd n)"

definition long_to_double :: "(int \<Rightarrow> real) \<Rightarrow> int \<Rightarrow> real" where
  "long_to_double rnd n = int_to_double rnd n"

section \<open>PropertyInteger and PropertyFloat\<close>

record PropertyInteger = Property +
  lValue :: int

record PropertyFloat = Property +
  dValue :: real

definition PropertyInteger_setValue ::
  "int \<Rightarrow> 'a PropertyInteger_scheme \<Rightarrow> 'a PropertyInteger_scheme" where
  "PropertyInteger_setValue v p = hasSetValue ((aboutToSetValue p)\<lparr>lValue := v\<rparr>)"

definition PropertyFloat_setValue ::
  "real \<Rightarrow> 'a PropertyFloat_scheme \<Rightarrow> 'a PropertyFloat_scheme" where
  "PropertyFloat_setValue v p = hasSetValue ((aboutToSetValue p)\<lparr>dValue := v\<rparr>)"

fun PropertyInteger_setPyObject ::
  "pyobj \<Rightarrow> 'a PropertyInteger_scheme \<Rightarrow> 'a PropertyInteger_scheme result" where
  "PropertyInteger_setPyObject (PyLong n) p =
     Returns (hasSetValue ((aboutToSetValue p)\<lparr>lValue := PyLong_AsLong n\<rparr>))"
| "PropertyInteger_setPyObject v p =
     Throws (TypeError (''type must be int, not '' @ tp_name v)) p"

fun PropertyFloat_setPyObject ::
  "(int \<Rightarrow> real) \<Rightarrow> pyobj \<Rightarrow> 'a PropertyFloat_scheme \<Rightarrow> 'a PropertyFloat_scheme result" where
  "PropertyFloat_setPyObject rnd (PyFloat x) p =
     Returns (hasSetValue ((aboutToSetValue p)\<lparr>dValue := x\<rparr>))"
| "PropertyFloat_setPyObject rnd (PyLong n) p =
     Returns (hasSetValue ((aboutToSetValue p)\<lparr>dValue := long_to_double rnd (PyLong_AsLong n)\<rparr>))"
| "PropertyFloat_setPyObject rnd v p =
     Throws (TypeError (''type must be float or int, not '' @ tp_name v)) p"

section \<open>PropertyIntegerConstraint and PropertyFloatConstraint\<close>

text \<open>
  The \<^verbatim>\<open>Constraints\<close> structs of the two classes: bounds, step and the flag that says
  whether the cell owns (and may delete) the struct. \<^verbatim>\<open>_ConstStruct\<close> is a pointer,
  null when no descriptor is installed.
\<close>

record 'a Constraints =
  LowerBound :: 'a
  UpperBound :: 'a
  StepSize :: 'a
  candelete :: bool

record PropertyIntegerConstraint = PropertyInteger +
  ConstStruct_l :: "int Constraints option"

record PropertyFloatConstraint = PropertyFloat +
  ConstStruct_d :: "real Constraints option"

text \<open>
  The argument converters of \<^verbatim>\<open>PyArg_ParseTuple\<close>: \<^verbatim>\<open>l\<close> takes a Python int that fits a
  \<^verbatim>\<open>long\<close>, \<^verbatim>\<open>d\<close> takes a Python float, or a Python int whose double is finite. \<open>None\<close>
  is a failed conversion.
\<close>

fun conv_l :: "pyobj \<Rightarrow> int option" where
  "conv_l (PyLong n) = (if LONG_MIN \<le> n \<and> n \<le> LONG_MAX then Some n else None)"
| "conv_l _ = None"

fun conv_d :: "(int \<Rightarrow> real) \<Rightarrow> pyobj \<Rightarrow> real option" where
  "conv_d rnd (PyFloat x) = Some x"
| "conv_d rnd (PyLong n) =
     (let x = int_to_double rnd n in if \<bar>x\<bar> \<le> DBL_MAX then Some x else None)"
| "conv_d rnd _ = None"

text \<open>
  \<^verbatim>\<open>PyArg_ParseTuple(value, "llll", ...)\<close> and \<^verbatim>\<open>"dddd"\<close>: exactly four items, each
  converted; the result is the array \<^verbatim>\<open>valConstr\<close>.
\<close>

fun ParseTuple4 :: "(pyobj \<Rightarrow> 'a option) \<Rightarrow> pyobj list \<Rightarrow> ('a \<times> 'a \<times> 'a \<times> 'a) option" where
  "ParseTuple4 conv [a, b, c, d] =
     (case (conv a, conv b, conv c, conv d) of
        (Some a', Some b', Some c', Some d') \<Rightarrow> Some (a', b', c', d')
      | _ \<Rightarrow> None)"
| "ParseTuple4 conv _ = None"

text \<open>
  \<^verbatim>\<open>Wrapped_ParseTupleAndKeywords(dummy, value, "l|lll", kw, ...)\<close> with the keywords
  \<^verbatim>\<open>value\<close>, \<^verbatim>\<open>min\<close>, \<^verbatim>\<open>max\<close>, \<^verbatim>\<open>step\<close>: the first is required, an absent optional
  keyword leaves the default in \<^verbatim>\<open>valConstr\<close>, any other key fails the parse.
\<close>

definition opt_kw ::
  "(pyobj \<Rightarrow> 'a option) \<Rightarrow> (string \<times> pyobj) list \<Rightarrow> string \<Rightarrow> 'a \<Rightarrow> 'a option" where
  "opt_kw conv d k dflt = (case map_of d k of None \<Rightarrow> Some dflt | Some v \<Rightarrow> conv v)"

fun ParseKeywords4 ::
  "(pyobj \<Rightarrow> 'a option) \<Rightarrow> (string \<times> pyobj) list \<Rightarrow> ('a \<times> 'a \<times> 'a \<times> 'a) \<Rightarrow>
   ('a \<times> 'a \<times> 'a \<times> 'a) option" where
  "ParseKeywords4 conv d (v0, lo0, hi0, st0) =
     (if list_all (\<lambda>k. k \<in> {''value'', ''min'', ''max'', ''step''}) (map fst d)
      then (case map_of d ''value'' of
              None \<Rightarrow> None
            | Some v \<Rightarrow>
                (case (conv v, opt_kw conv d ''min'' lo0, opt_kw conv d ''max'' hi0,
                       opt_kw conv d ''step'' st0) of
                   (Some a', Some b', Some c', Some d') \<Rightarrow> Some (a', b', c', d')
                 | _ \<Rightarrow> None))
      else None)"

text \<open>
  \<^verbatim>\<open>setConstraints\<close> replaces the pointer (the old struct is freed when owned; freeing
  has no effect on the values modelled here).
\<close>

definition PropertyIntegerConstraint_setConstraints ::
  "int Constraints option \<Rightarrow> 'a PropertyIntegerConstraint_scheme \<Rightarrow>
   'a PropertyIntegerConstraint_scheme" where
  "PropertyIntegerConstraint_setConstraints c p = p\<lparr>ConstStruct_l := c\<rparr>"

definition PropertyFloatConstraint_setConstraints ::
  "real Constraints option \<Rightarrow> 'a PropertyFloatConstraint_scheme \<Rightarrow>
   'a PropertyFloatConstraint_scheme" where
  "PropertyFloatConstraint_setConstraints c p = p\<lparr>ConstStruct_d := c\<rparr>"

text \<open>
  The bound test the setters repeat: \<^verbatim>\<open>if (temp > UpperBound) temp = UpperBound;
  else if (temp < LowerBound) temp = LowerBound;\<close>.
\<close>

definition bound_by :: "'a::linorder Constraints \<Rightarrow> 'a \<Rightarrow> 'a" where
  "bound_by c temp =
     (if temp > UpperBound c then UpperBound c
      else if temp < LowerBound c then LowerBound c
      else temp)"

definition install_l ::
  "(int \<times> int \<times> int \<times> int) \<Rightarrow> 'a PropertyIntegerConstraint_scheme \<Rightarrow>
   'a PropertyIntegerConstraint_scheme result" where
  "install_l valConstr p =
     (case valConstr of (v, lo, hi, st) \<Rightarrow>
        let c = \<lparr>LowerBound = lo, UpperBound = hi, StepSize = max 1 st, candelete = True\<rparr>;
            v' = bound_by c v;
            p1 = PropertyIntegerConstraint_setConstraints (Some c) p
        in Returns (hasSetValue ((aboutToSetValue p1)\<lparr>lValue := v'\<rparr>)))"

fun PropertyIntegerConstraint_setPyObject ::
  "pyobj \<Rightarrow> 'a PropertyIntegerConstraint_scheme \<Rightarrow>
   'a PropertyIntegerConstraint_scheme result" where
  "PropertyIntegerConstraint_setPyObject (PyLong n) p =
     (let temp = PyLong_AsLong n;
          temp' = (case ConstStruct_l p of Some c \<Rightarrow> bound_by c temp | None \<Rightarrow> temp)
      in Returns (hasSetValue ((aboutToSetValue p)\<lparr>lValue := temp'\<rparr>)))"
| "PropertyIntegerConstraint_setPyObject (PyDict d) p =
     (case ParseKeywords4 conv_l d (0, INT_MIN, INT_MAX, 1) of
        None \<Rightarrow> Throws PyException p
      | Some valConstr \<Rightarrow> install_l valConstr p)"
| "PropertyIntegerConstraint_setPyObject (PyTuple t) p =
     (case ParseTuple4 conv_l t of
        None \<Rightarrow> Throws PyException p
      | Some valConstr \<Rightarrow> install_l valConstr p)"
| "PropertyIntegerConstraint_setPyObject v p =
     Throws (TypeError (''type must be int, dict or tuple, not '' @ tp_name v)) p"

definition install_d ::
  "(real \<times> real \<times> real \<times> real) \<Rightarrow> 'a PropertyFloatConstraint_scheme \<Rightarrow>
   'a PropertyFloatConstraint_scheme result" where
  "install_d valConstr p =
     (case valConstr of (v, lo, hi, stepSize) \<Rightarrow>
        if stepSize < DBL_EPSILON
        then Throws (ValueError ''Step size must be greater than zero'') p
        else
          let c = \<lparr>LowerBound = lo, UpperBound = hi, StepSize = stepSize, candelete = True\<rparr>;
              v' = bound_by c v;
              p1 = PropertyFloatConstraint_setConstraints (Some c) p
          in Returns (hasSetValue ((aboutToSetValue p1)\<lparr>dValue := v'\<rparr>)))"

fun PropertyFloatConstraint_setPyObject ::
  "(int \<Rightarrow> real) \<Rightarrow> pyobj \<Rightarrow> 'a PropertyFloatConstraint_scheme \<Rightarrow>
   'a PropertyFloatConstraint_scheme result" where
  "PropertyFloatConstraint_setPyObject rnd (PyFloat x) p =
     (let temp = x;
          temp' = (case ConstStruct_d p of Some c \<Rightarrow> bound_by c temp | None \<Rightarrow> temp)
      in Returns (hasSetValue ((aboutToSetValue p)\<lparr>dValue := temp'\<rparr>)))"
| "PropertyFloatConstraint_setPyObject rnd (PyLong n) p =
     (let temp = long_to_double rnd (PyLong_AsLong n);
          temp' = (case ConstStruct_d p of Some c \<Rightarrow> bound_by c temp | None \<Rightarrow> temp)
      in Returns (hasSetValue ((aboutToSetValue p)\<lparr>dValue := temp'\<rparr>)))"
| "PropertyFloatConstraint_setPyObject rnd (PyDict d) p =
     (case ParseKeywords4 (conv_d rnd) d (0, - DBL_MAX, DBL_MAX, 1) of
        None \<Rightarrow> Throws PyException p
      | Some valConstr \<Rightarrow> install_d valConstr p)"
| "PropertyFloatConstraint_setPyObject rnd (PyTuple t) p =
     (case ParseTuple4 (conv_d rnd) t of
        None \<Rightarrow> Throws PyException p
      | Some valConstr \<Rightarrow> install_d valConstr p)"
| "PropertyFloatConstraint_setPyObject rnd v p =
     Throws (TypeError (''type must be float, dict or tuple, not '' @ tp_name v)) p"

text \<open>The clamp of the specification: the nearest point of the interval \<open>[lo, hi]\<close>.\<close>

definition clamp :: "'a::linorder \<Rightarrow> 'a \<Rightarrow> 'a \<Rightarrow> 'a" where
  "clamp x lo hi = max lo (min x hi)"

section \<open>The path-value setter of PropertyInteger\<close>

text \<open>
  The \<^verbatim>\<open>boost::any\<close> an expression hands to \<^verbatim>\<open>setPathValue\<close>, by the type it holds.
  \<open>AnyOther\<close> is any type the function does not test for.
\<close>

datatype any_value =
    AnyLong int
  | AnyInt int
  | AnyDouble real
  | AnyFloat real
  | AnyQuantity real
  | AnyOther

text \<open>\<^verbatim>\<open>boost::math::round\<close>: the nearest integer, a tie going away from zero.\<close>

definition boost_round :: "real \<Rightarrow> int" where
  "boost_round v = (if v < 0 then \<lceil>v - 1 / 2\<rceil> else \<lfloor>v + 1 / 2\<rfloor>)"

text \<open>
  \<^verbatim>\<open>boost::math::round\<close> returns a double and \<^verbatim>\<open>setValue(long)\<close> converts it. The conversion
  yields the value when it fits a \<^verbatim>\<open>long\<close>; for any other value C++ leaves the result
  open, and \<open>ovf\<close> stands for what the build does then.
\<close>

definition double_to_long :: "(int \<Rightarrow> int) \<Rightarrow> int \<Rightarrow> int" where
  "double_to_long ovf v = (if LONG_MIN \<le> v \<and> v \<le> LONG_MAX then v else ovf v)"

text \<open>
  \<^verbatim>\<open>verifyPath(path)\<close> belongs to the base class; \<open>verified\<close> is what the call did:
  \<open>None\<close> when it returned, \<open>Some e\<close> when it threw \<open>e\<close>.
\<close>

fun PropertyInteger_setPathValue ::
  "(int \<Rightarrow> int) \<Rightarrow> error option \<Rightarrow> any_value \<Rightarrow> 'a PropertyInteger_scheme \<Rightarrow>
   'a PropertyInteger_scheme result" where
  "PropertyInteger_setPathValue ovf (Some e) _ p = Throws e p"
| "PropertyInteger_setPathValue ovf None (AnyLong n) p = Returns (PropertyInteger_setValue n p)"
| "PropertyInteger_setPathValue ovf None (AnyInt n) p = Returns (PropertyInteger_setValue n p)"
| "PropertyInteger_setPathValue ovf None (AnyDouble x) p =
     Returns (PropertyInteger_setValue (double_to_long ovf (boost_round x)) p)"
| "PropertyInteger_setPathValue ovf None (AnyFloat x) p =
     Returns (PropertyInteger_setValue (double_to_long ovf (boost_round x)) p)"
| "PropertyInteger_setPathValue ovf None (AnyQuantity x) p =
     Returns (PropertyInteger_setValue (double_to_long ovf (boost_round x)) p)"
| "PropertyInteger_setPathValue ovf None AnyOther p = Throws BadCast p"

section \<open>PropertyString\<close>

record PropertyString = Property +
  cValue :: string

text \<open>
  What \<^verbatim>\<open>PropertyString::setValue\<close> asks of its surroundings: whether the cell is the
  \<^verbatim>\<open>Label\<close> of a document object, what \<^verbatim>\<open>onProposedLabelChange\<close> does with the proposed
  text (the text it leaves in \<^verbatim>\<open>newValueStr\<close> and how many property changes it
  returns), whether a transaction is active, and the object's name in the document.
\<close>

record LabelEnv =
  isLabel :: bool
  onProposedLabelChange :: "string \<Rightarrow> string \<times> nat"
  activeTransaction :: bool
  nameInDocument :: string

definition signal :: "hook \<Rightarrow> 'a Property_scheme \<Rightarrow> 'a Property_scheme" where
  "signal h p = p\<lparr>hooks := hooks p @ [h]\<rparr>"

text \<open>\<open>newValue\<close> is a \<^verbatim>\<open>const char*\<close>: \<open>None\<close> is the null pointer.\<close>

definition PropertyString_setValue ::
  "LabelEnv \<Rightarrow> string option \<Rightarrow> 'a PropertyString_scheme \<Rightarrow> 'a PropertyString_scheme" where
  "PropertyString_setValue env newValue p =
     (case newValue of
        None \<Rightarrow> p
      | Some nv \<Rightarrow>
          if cValue p = nv then p
          else if isLabel env then
            (case onProposedLabelChange env nv of (newValueStr, propChanges) \<Rightarrow>
               if cValue p = newValueStr then p
               else
                 let commit = (propChanges \<noteq> 0 \<and> \<not> activeTransaction env);
                     p1 = (if commit
                           then signal (SetActiveTransaction
                                  (''Change '' @ nameInDocument env @ ''.Label'')) p
                           else p);
                     p2 = hasSetValue ((aboutToSetValue p1)\<lparr>cValue := newValueStr\<rparr>);
                     p3 = fold (\<lambda>i. signal (PasteChange i)) [0..<propChanges] p2
                 in if commit then signal CloseActiveTransaction p3 else p3)
          else hasSetValue ((aboutToSetValue p)\<lparr>cValue := nv\<rparr>))"

text \<open>
  \<^verbatim>\<open>PropertyString::setValue(const std::string&)\<close> hands \<^verbatim>\<open>sString.c_str()\<close> to the function
  above: a C string ends at the first NUL character.
\<close>

definition c_str :: "string \<Rightarrow> string" where
  "c_str sString = takeWhile (\<lambda>c. c \<noteq> CHR 0x00) sString"

definition PropertyString_setValue_string ::
  "LabelEnv \<Rightarrow> string \<Rightarrow> 'a PropertyString_scheme \<Rightarrow> 'a PropertyString_scheme" where
  "PropertyString_setValue_string env sString p =
     PropertyString_setValue env (Some (c_str sString)) p"

section \<open>PropertyEnumeration\<close>

text \<open>
  Modelled from the spec: class \<^verbatim>\<open>App::Enumeration\<close> (\<^verbatim>\<open>Enumeration.cpp\<close>) is not among
  the sources. The spec gives it a selected index (\<open>-1\<close> when unset) and an ordered label
  list; the selection is valid when the index points into the list, and the current
  label is the one at the index.
\<close>

record Enumeration =
  selectedIndex :: int
  labels :: "string list"
  isCustom :: bool

definition isValid :: "Enumeration \<Rightarrow> bool" where
  "isValid e = (0 \<le> selectedIndex e \<and> selectedIndex e < int (length (labels e)))"

definition getCStr :: "Enumeration \<Rightarrow> string" where
  "getCStr e = labels e ! nat (selectedIndex e)"

text \<open>
  \<open>fullName\<close> is what \<^verbatim>\<open>getFullName()\<close> returns for the cell; it starts with \<^verbatim>\<open>?\<close> while
  the container is not attached to a document.
\<close>

record PropertyEnumeration = Property +
  enum :: Enumeration
  fullName :: string

definition starts_with :: "string \<Rightarrow> string \<Rightarrow> bool" where
  "starts_with s pre = (take (length pre) s = pre)"

text \<open>
  \<^verbatim>\<open>setEnums(const char**)\<close> and \<^verbatim>\<open>setEnumVector\<close>. \<open>enum_setEnums\<close> stands for the two
  overloads of \<^verbatim>\<open>Enumeration::setEnums\<close>, which are not among the sources.
\<close>

definition PropertyEnumeration_setEnums ::
  "('l \<Rightarrow> Enumeration \<Rightarrow> Enumeration) \<Rightarrow> 'l \<Rightarrow> 'a PropertyEnumeration_scheme \<Rightarrow>
   'a PropertyEnumeration_scheme" where
  "PropertyEnumeration_setEnums enum_setEnums plEnums p =
     (let notify = \<not> starts_with (fullName p) ''?'';
          p1 = (if notify then aboutToSetValue p else p);
          p2 = p1\<lparr>enum := enum_setEnums plEnums (enum p1)\<rparr>
      in if notify then hasSetValue p2 else p2)"

definition PropertyEnumeration_setEnumVector ::
  "('l \<Rightarrow> Enumeration \<Rightarrow> Enumeration) \<Rightarrow> 'l \<Rightarrow> 'a PropertyEnumeration_scheme \<Rightarrow>
   'a PropertyEnumeration_scheme" where
  "PropertyEnumeration_setEnumVector enum_setEnums values p =
     (let notify = \<not> starts_with (fullName p) ''?'';
          p1 = (if notify then aboutToSetValue p else p);
          p2 = p1\<lparr>enum := enum_setEnums values (enum p1)\<rparr>
      in if notify then hasSetValue p2 else p2)"

definition PropertyEnumeration_getValueAsString ::
  "'a PropertyEnumeration_scheme \<Rightarrow> error + string" where
  "PropertyEnumeration_getValueAsString p =
     (if \<not> isValid (enum p)
      then Inl (RuntimeError ''Cannot get value from invalid enumeration'')
      else Inr (getCStr (enum p)))"

definition PropertyEnumeration_getPyObject ::
  "'a PropertyEnumeration_scheme \<Rightarrow> error + pyobj" where
  "PropertyEnumeration_getPyObject p =
     (if \<not> isValid (enum p) then Inr PyNone
      else case PropertyEnumeration_getValueAsString p of
             Inl e \<Rightarrow> Inl e
           | Inr s \<Rightarrow> Inr (PyUnicode s))"

section \<open>Material and PropertyMaterialList\<close>

text \<open>
  A C \<^verbatim>\<open>float\<close> is represented by its 32 bits: the functions below store, copy, write
  and read floats and never compute with them. \<^verbatim>\<open>Base::Color\<close> is declared outside the
  sources; it is the type parameter \<open>'c\<close>, and its members \<^verbatim>\<open>getPackedValue\<close> and \<^verbatim>\<open>setPackedValue\<close>
  are parameters of the functions that call them.
\<close>

type_synonym float32 = "32 word"

record 'c Material =
  ambientColor :: 'c
  diffuseColor :: 'c
  specularColor :: 'c
  emissiveColor :: 'c
  shininess :: float32
  transparency :: float32
  image :: string
  imagePath :: string
  uuid :: string

text \<open>
  Modelled from the spec: the constructor of \<^verbatim>\<open>App::Material\<close> (\<^verbatim>\<open>Material.cpp\<close>) is not among
  the sources. The spec says that the three strings of a material have the default value
  empty; the default colours and floats are not given, they are taken from the argument.
\<close>

definition Material_ctor :: "'c Material \<Rightarrow> 'c Material" where
  "Material_ctor m0 = m0\<lparr>image := [], imagePath := [], uuid := []\<rparr>"

text \<open>\<^verbatim>\<open>Version_2\<close> and \<^verbatim>\<open>Version_3\<close> of the enum \<^verbatim>\<open>Format\<close>; \<^verbatim>\<open>Restore\<close> casts the integer
  of the \<^verbatim>\<open>version\<close> attribute to it, and \<^verbatim>\<open>Save\<close> writes \<^verbatim>\<open>version="3"\<close>.\<close>

definition Version_2 :: int where "Version_2 = 2"
definition Version_3 :: int where "Version_3 = 3"

text \<open>
  The list cells derive from \<^verbatim>\<open>PropertyListsT<T>\<close>, which holds the vector \<^verbatim>\<open>_lValueList\<close>.
\<close>

record 'e PropertyLists = Property +
  lValueList :: "'e list"

record 'c PropertyMaterialList = "'c Material PropertyLists" +
  formatVersion :: int

definition getSize :: "'c PropertyMaterialList \<Rightarrow> int" where
  "getSize p = int (length (lValueList p))"

text \<open>
  Modelled from the spec: \<^verbatim>\<open>PropertyListsT<T>::setSize\<close> and \<^verbatim>\<open>::setValues\<close>
  (\<^verbatim>\<open>Property.h\<close>) are not among the sources. \<open>setSize\<close> resizes the vector, a new element
  being a copy of \<open>def\<close> (the default-constructed material for the overload with one
  argument); \<open>setValues\<close> replaces the list inside the notification bracket.
\<close>

definition setSize :: "nat \<Rightarrow> 'm \<Rightarrow> 'm list \<Rightarrow> 'm list" where
  "setSize newSize def xs = take newSize xs @ replicate (newSize - length xs) def"

definition PropertyListsT_setValues ::
  "'e list \<Rightarrow> ('e, 'z) PropertyLists_scheme \<Rightarrow> ('e, 'z) PropertyLists_scheme" where
  "PropertyListsT_setValues newValues p =
     hasSetValue ((aboutToSetValue p)\<lparr>lValueList := newValues\<rparr>)"

definition PropertyMaterialList_setValues ::
  "'c Material \<Rightarrow> 'c Material list \<Rightarrow> 'c PropertyMaterialList \<Rightarrow> 'c PropertyMaterialList" where
  "PropertyMaterialList_setValues m0 newValues p =
     (if newValues \<noteq> [] then PropertyListsT_setValues newValues p
      else
        let p1 = aboutToSetValue p;
            p2 = p1\<lparr>lValueList := setSize 1 (Material_ctor m0) (lValueList p1)\<rparr>
        in hasSetValue p2)"

definition verifyIndex :: "int \<Rightarrow> 'c PropertyMaterialList \<Rightarrow> error option" where
  "verifyIndex index p =
     (let size = getSize p in
      if index < - 1 \<or> index > size then Some (RuntimeError ''index out of bound'') else None)"

definition setMinimumSizeOne ::
  "'c Material \<Rightarrow> 'c PropertyMaterialList \<Rightarrow> 'c PropertyMaterialList" where
  "setMinimumSizeOne m0 p =
     (let size = getSize p in
      if size < 1 then p\<lparr>lValueList := setSize 1 (Material_ctor m0) (lValueList p)\<rparr> else p)"

definition resizeByOneIfNeeded ::
  "'c Material \<Rightarrow> int \<Rightarrow> 'c PropertyMaterialList \<Rightarrow> int \<times> 'c PropertyMaterialList" where
  "resizeByOneIfNeeded m0 index p =
     (let size = getSize p in
      if index = - 1 \<or> index = size
      then (size, p\<lparr>lValueList := setSize (nat (size + 1)) (Material_ctor m0) (lValueList p)\<rparr>)
      else (index, p))"

text \<open>\<^verbatim>\<open>PropertyMaterialList::setValue(const Material&)\<close>.\<close>

definition PropertyMaterialList_setValue ::
  "'c Material \<Rightarrow> 'c Material \<Rightarrow> 'c PropertyMaterialList \<Rightarrow> 'c PropertyMaterialList" where
  "PropertyMaterialList_setValue m0 mat p =
     (let p1 = aboutToSetValue p;
          p2 = p1\<lparr>lValueList := setSize 1 (Material_ctor m0) (lValueList p1)\<rparr>;
          p3 = p2\<lparr>lValueList := map (\<lambda>material. mat) (lValueList p2)\<rparr>
      in hasSetValue p3)"

text \<open>
  The setters without an index have one body: \<^verbatim>\<open>aboutToSetValue(); setMinimumSizeOne();
  for (auto& material : _lValueList) material.FIELD = val; hasSetValue();\<close>.
  \<open>assign\<close> is the assignment to the field.
\<close>

definition set_all ::
  "'c Material \<Rightarrow> ('c Material \<Rightarrow> 'c Material) \<Rightarrow> 'c PropertyMaterialList \<Rightarrow>
   'c PropertyMaterialList" where
  "set_all m0 assign p =
     (let p1 = aboutToSetValue p;
          p2 = setMinimumSizeOne m0 p1;
          p3 = p2\<lparr>lValueList := map assign (lValueList p2)\<rparr>
      in hasSetValue p3)"

definition PropertyMaterialList_setAmbientColor ::
  "'c Material \<Rightarrow> 'c \<Rightarrow> 'c PropertyMaterialList \<Rightarrow> 'c PropertyMaterialList" where
  "PropertyMaterialList_setAmbientColor m0 col = set_all m0 (\<lambda>m. m\<lparr>ambientColor := col\<rparr>)"

definition PropertyMaterialList_setDiffuseColor ::
  "'c Material \<Rightarrow> 'c \<Rightarrow> 'c PropertyMaterialList \<Rightarrow> 'c PropertyMaterialList" where
  "PropertyMaterialList_setDiffuseColor m0 col = set_all m0 (\<lambda>m. m\<lparr>diffuseColor := col\<rparr>)"

definition PropertyMaterialList_setSpecularColor ::
  "'c Material \<Rightarrow> 'c \<Rightarrow> 'c PropertyMaterialList \<Rightarrow> 'c PropertyMaterialList" where
  "PropertyMaterialList_setSpecularColor m0 col = set_all m0 (\<lambda>m. m\<lparr>specularColor := col\<rparr>)"

definition PropertyMaterialList_setEmissiveColor ::
  "'c Material \<Rightarrow> 'c \<Rightarrow> 'c PropertyMaterialList \<Rightarrow> 'c PropertyMaterialList" where
  "PropertyMaterialList_setEmissiveColor m0 col = set_all m0 (\<lambda>m. m\<lparr>emissiveColor := col\<rparr>)"

definition PropertyMaterialList_setShininess ::
  "'c Material \<Rightarrow> float32 \<Rightarrow> 'c PropertyMaterialList \<Rightarrow> 'c PropertyMaterialList" where
  "PropertyMaterialList_setShininess m0 val = set_all m0 (\<lambda>m. m\<lparr>shininess := val\<rparr>)"

definition PropertyMaterialList_setTransparency ::
  "'c Material \<Rightarrow> float32 \<Rightarrow> 'c PropertyMaterialList \<Rightarrow> 'c PropertyMaterialList" where
  "PropertyMaterialList_setTransparency m0 val = set_all m0 (\<lambda>m. m\<lparr>transparency := val\<rparr>)"

text \<open>
  The setters with an index have one body too: \<^verbatim>\<open>verifyIndex(index); aboutToSetValue();
  index = resizeByOneIfNeeded(index); _lValueList[index].FIELD = val; hasSetValue();\<close>
  (\<^verbatim>\<open>_lValueList[index] = mat\<close> for \<^verbatim>\<open>setValue(int, const Material&)\<close>).
\<close>

definition set_at ::
  "'c Material \<Rightarrow> ('c Material \<Rightarrow> 'c Material) \<Rightarrow> int \<Rightarrow> 'c PropertyMaterialList \<Rightarrow>
   'c PropertyMaterialList result" where
  "set_at m0 assign index p =
     (case verifyIndex index p of
        Some e \<Rightarrow> Throws e p
      | None \<Rightarrow>
          let p1 = aboutToSetValue p;
              (index', p2) = resizeByOneIfNeeded m0 index p1;
              p3 = p2\<lparr>lValueList :=
                     (lValueList p2)[nat index' := assign (lValueList p2 ! nat index')]\<rparr>
          in Returns (hasSetValue p3))"

text \<open>
  The index-qualified setters, by name. Each colour has three overloads: one assigns a
  \<^verbatim>\<open>Base::Color\<close>, the other two call \<^verbatim>\<open>set(r, g, b, a)\<close> or \<^verbatim>\<open>setPackedValue(rgba)\<close> on the
  field; \<open>ModifyAmbientColor op\<close> and its siblings are these two, \<open>op\<close> being what the
  call does to the colour.
\<close>

datatype 'c indexed_setter =
    SetValue "'c Material"
  | SetAmbientColor 'c
  | ModifyAmbientColor "'c \<Rightarrow> 'c"
  | SetDiffuseColor 'c
  | ModifyDiffuseColor "'c \<Rightarrow> 'c"
  | SetSpecularColor 'c
  | ModifySpecularColor "'c \<Rightarrow> 'c"
  | SetEmissiveColor 'c
  | ModifyEmissiveColor "'c \<Rightarrow> 'c"
  | SetShininess float32
  | SetTransparency float32

fun PropertyMaterialList_set_indexed ::
  "'c Material \<Rightarrow> 'c indexed_setter \<Rightarrow> int \<Rightarrow> 'c PropertyMaterialList \<Rightarrow>
   'c PropertyMaterialList result" where
  "PropertyMaterialList_set_indexed m0 (SetValue mat) index p =
     set_at m0 (\<lambda>m. mat) index p"
| "PropertyMaterialList_set_indexed m0 (SetAmbientColor col) index p =
     set_at m0 (\<lambda>m. m\<lparr>ambientColor := col\<rparr>) index p"
| "PropertyMaterialList_set_indexed m0 (ModifyAmbientColor op) index p =
     set_at m0 (\<lambda>m. m\<lparr>ambientColor := op (ambientColor m)\<rparr>) index p"
| "PropertyMaterialList_set_indexed m0 (SetDiffuseColor col) index p =
     set_at m0 (\<lambda>m. m\<lparr>diffuseColor := col\<rparr>) index p"
| "PropertyMaterialList_set_indexed m0 (ModifyDiffuseColor op) index p =
     set_at m0 (\<lambda>m. m\<lparr>diffuseColor := op (diffuseColor m)\<rparr>) index p"
| "PropertyMaterialList_set_indexed m0 (SetSpecularColor col) index p =
     set_at m0 (\<lambda>m. m\<lparr>specularColor := col\<rparr>) index p"
| "PropertyMaterialList_set_indexed m0 (ModifySpecularColor op) index p =
     set_at m0 (\<lambda>m. m\<lparr>specularColor := op (specularColor m)\<rparr>) index p"
| "PropertyMaterialList_set_indexed m0 (SetEmissiveColor col) index p =
     set_at m0 (\<lambda>m. m\<lparr>emissiveColor := col\<rparr>) index p"
| "PropertyMaterialList_set_indexed m0 (ModifyEmissiveColor op) index p =
     set_at m0 (\<lambda>m. m\<lparr>emissiveColor := op (emissiveColor m)\<rparr>) index p"
| "PropertyMaterialList_set_indexed m0 (SetShininess val) index p =
     set_at m0 (\<lambda>m. m\<lparr>shininess := val\<rparr>) index p"
| "PropertyMaterialList_set_indexed m0 (SetTransparency val) index p =
     set_at m0 (\<lambda>m. m\<lparr>transparency := val\<rparr>) index p"

text \<open>
  The field a setter aims at holds the value supplied: \<open>new\<close> is the element after the
  call, \<open>old\<close> the element the assignment found there (the old element, or the
  default-constructed one that the call appended).
\<close>

fun field_is :: "'c indexed_setter \<Rightarrow> 'c Material \<Rightarrow> 'c Material \<Rightarrow> bool" where
  "field_is (SetValue mat) old new = (new = mat)"
| "field_is (SetAmbientColor col) old new = (ambientColor new = col)"
| "field_is (ModifyAmbientColor op) old new = (ambientColor new = op (ambientColor old))"
| "field_is (SetDiffuseColor col) old new = (diffuseColor new = col)"
| "field_is (ModifyDiffuseColor op) old new = (diffuseColor new = op (diffuseColor old))"
| "field_is (SetSpecularColor col) old new = (specularColor new = col)"
| "field_is (ModifySpecularColor op) old new = (specularColor new = op (specularColor old))"
| "field_is (SetEmissiveColor col) old new = (emissiveColor new = col)"
| "field_is (ModifyEmissiveColor op) old new = (emissiveColor new = op (emissiveColor old))"
| "field_is (SetShininess val) old new = (shininess new = val)"
| "field_is (SetTransparency val) old new = (transparency new = val)"

text \<open>
  \<^verbatim>\<open>setDiffuseColors\<close> and \<^verbatim>\<open>setTransparencies\<close>: \<^verbatim>\<open>setSize(colors.size(), _lValueList[0])\<close>,
  then one assignment for each index.
\<close>

definition PropertyMaterialList_setDiffuseColors ::
  "'c list \<Rightarrow> 'c PropertyMaterialList \<Rightarrow> 'c PropertyMaterialList result" where
  "PropertyMaterialList_setDiffuseColors colors p =
     (let p1 = aboutToSetValue p in
      case lValueList p1 of
        [] \<Rightarrow> Throws UndefinedBehaviour p1
      | first # _ \<Rightarrow>
          let p2 = p1\<lparr>lValueList := setSize (length colors) first (lValueList p1)\<rparr>;
              p3 = fold (\<lambda>i q. q\<lparr>lValueList :=
                     (lValueList q)[i := (lValueList q ! i)\<lparr>diffuseColor := colors ! i\<rparr>]\<rparr>)
                     [0..<length colors] p2
          in Returns (hasSetValue p3))"

definition PropertyMaterialList_setTransparencies ::
  "float32 list \<Rightarrow> 'c PropertyMaterialList \<Rightarrow> 'c PropertyMaterialList result" where
  "PropertyMaterialList_setTransparencies transparencies p =
     (let p1 = aboutToSetValue p in
      case lValueList p1 of
        [] \<Rightarrow> Throws UndefinedBehaviour p1
      | first # _ \<Rightarrow>
          let p2 = p1\<lparr>lValueList := setSize (length transparencies) first (lValueList p1)\<rparr>;
              p3 = fold (\<lambda>i q. q\<lparr>lValueList :=
                     (lValueList q)[i := (lValueList q ! i)\<lparr>transparency := transparencies ! i\<rparr>]\<rparr>)
                     [0..<length transparencies] p2
          in Returns (hasSetValue p3))"

section \<open>The other cells, and Paste\<close>

text \<open>
  The cells not met so far, each with the member its \<^verbatim>\<open>Paste\<close> assigns: \<^verbatim>\<open>_cValue\<close> of
  \<^verbatim>\<open>PropertyPath\<close>, \<^verbatim>\<open>_lValueSet\<close> of \<^verbatim>\<open>PropertyIntegerSet\<close>, \<^verbatim>\<open>_uuid\<close> of \<^verbatim>\<open>PropertyUUID\<close>,
  \<^verbatim>\<open>_lValueList\<close> of \<^verbatim>\<open>PropertyMap\<close> (a \<^verbatim>\<open>std::map\<close>), \<^verbatim>\<open>_lValue\<close> of \<^verbatim>\<open>PropertyBool\<close>, \<^verbatim>\<open>_cCol\<close>
  of \<^verbatim>\<open>PropertyColor\<close>, \<^verbatim>\<open>_cMat\<close> of \<^verbatim>\<open>PropertyMaterial\<close>, and \<^verbatim>\<open>_pObject\<close> of
  \<^verbatim>\<open>PropertyPersistentObject\<close>, a shared pointer, given by the address it holds.
\<close>

record PropertyPath = Property +
  cValue_path :: string

record PropertyIntegerSet = Property +
  lValueSet :: "int set"

record PropertyUUID = Property +
  uuid_value :: string

record PropertyMap = Property +
  lValueList_map :: "string \<rightharpoonup> string"

record PropertyBool = Property +
  lValue_bool :: bool

record 'c PropertyColor = Property +
  cCol :: 'c

record 'c PropertyMaterial = Property +
  cMat :: "'c Material"

record PropertyPersistentObject = PropertyString +
  pObject :: "nat option"

text \<open>
  The classes of the file and their two bases \<^verbatim>\<open>Property\<close> and \<^verbatim>\<open>PropertyLists\<close>. The class
  declarations are in \<^verbatim>\<open>PropertyStandard.h\<close>, which is not among the sources; the file names
  the parent of each class in its \<^verbatim>\<open>TYPESYSTEM_SOURCE\<close> line.
\<close>

datatype type_id =
    TProperty | TPropertyLists
  | TPropertyInteger | TPropertyIntegerConstraint | TPropertyPercent | TPropertyPath
  | TPropertyEnumeration | TPropertyIntegerList | TPropertyIntegerSet
  | TPropertyFloat | TPropertyFloatConstraint | TPropertyPrecision | TPropertyFloatList
  | TPropertyString | TPropertyFont | TPropertyPersistentObject | TPropertyUUID
  | TPropertyStringList | TPropertyMap | TPropertyBool | TPropertyBoolList
  | TPropertyColor | TPropertyColorList | TPropertyMaterial | TPropertyMaterialList

text \<open>The second argument of the \<^verbatim>\<open>TYPESYSTEM_SOURCE\<close> line of each class.\<close>

fun parent :: "type_id \<Rightarrow> type_id option" where
  "parent TProperty = None"
| "parent TPropertyLists = Some TProperty"
| "parent TPropertyInteger = Some TProperty"
| "parent TPropertyPath = Some TProperty"
| "parent TPropertyEnumeration = Some TProperty"
| "parent TPropertyIntegerConstraint = Some TPropertyInteger"
| "parent TPropertyPercent = Some TPropertyIntegerConstraint"
| "parent TPropertyIntegerList = Some TPropertyLists"
| "parent TPropertyIntegerSet = Some TProperty"
| "parent TPropertyFloat = Some TProperty"
| "parent TPropertyFloatConstraint = Some TPropertyFloat"
| "parent TPropertyPrecision = Some TPropertyFloatConstraint"
| "parent TPropertyFloatList = Some TPropertyLists"
| "parent TPropertyString = Some TProperty"
| "parent TPropertyUUID = Some TProperty"
| "parent TPropertyFont = Some TPropertyString"
| "parent TPropertyStringList = Some TPropertyLists"
| "parent TPropertyMap = Some TProperty"
| "parent TPropertyBool = Some TProperty"
| "parent TPropertyBoolList = Some TPropertyLists"
| "parent TPropertyColor = Some TProperty"
| "parent TPropertyColorList = Some TPropertyLists"
| "parent TPropertyMaterial = Some TProperty"
| "parent TPropertyMaterialList = Some TPropertyLists"
| "parent TPropertyPersistentObject = Some TPropertyString"

text \<open>How many classes lie between a class and \<^verbatim>\<open>Property\<close>.\<close>

fun depth :: "type_id \<Rightarrow> nat" where
  "depth TProperty = 0"
| "depth TPropertyIntegerConstraint = 2"
| "depth TPropertyPercent = 3"
| "depth TPropertyIntegerList = 2"
| "depth TPropertyFloatConstraint = 2"
| "depth TPropertyPrecision = 3"
| "depth TPropertyFloatList = 2"
| "depth TPropertyFont = 2"
| "depth TPropertyPersistentObject = 2"
| "depth TPropertyStringList = 2"
| "depth TPropertyBoolList = 2"
| "depth TPropertyColorList = 2"
| "depth TPropertyMaterialList = 2"
| "depth _ = 1"

text \<open>A class is derived from \<open>b\<close> when \<open>b\<close> is the class itself or one of its ancestors.\<close>

function isDerivedFrom :: "type_id \<Rightarrow> type_id \<Rightarrow> bool" where
  "isDerivedFrom t b =
     (if t = b then True
      else case parent t of None \<Rightarrow> False | Some t' \<Rightarrow> isDerivedFrom t' b)"
  by pat_completeness auto

termination
proof (relation "measure (\<lambda>(t, b). depth t)")
  show "wf (measure (\<lambda>(t, b). depth t))"
    by simp
next
  fix t b t' :: type_id
  assume "parent t = Some t'"
  then show "((t', b), (t, b)) \<in> measure (\<lambda>(t, b). depth t)"
    by (cases t) auto
qed

declare isDerivedFrom.simps [simp del]

text \<open>
  The argument of \<^verbatim>\<open>Paste\<close> is a reference to the base class \<^verbatim>\<open>Property\<close>; its dynamic type
  is one of the 23 classes of the file, here with the data of the object.
\<close>

datatype 'c property_ref =
    IsInteger PropertyInteger
  | IsIntegerConstraint PropertyIntegerConstraint
  | IsPercent PropertyIntegerConstraint
  | IsPath PropertyPath
  | IsEnumeration PropertyEnumeration
  | IsIntegerList "int PropertyLists"
  | IsIntegerSet PropertyIntegerSet
  | IsFloat PropertyFloat
  | IsFloatConstraint PropertyFloatConstraint
  | IsPrecision PropertyFloatConstraint
  | IsFloatList "real PropertyLists"
  | IsString PropertyString
  | IsFont PropertyString
  | IsPersistentObject PropertyPersistentObject
  | IsUUID PropertyUUID
  | IsStringList "string PropertyLists"
  | IsMap PropertyMap
  | IsBool PropertyBool
  | IsBoolList "bool PropertyLists"
  | IsColor "'c PropertyColor"
  | IsColorList "'c PropertyLists"
  | IsMaterial "'c PropertyMaterial"
  | IsMaterialList "'c PropertyMaterialList"

fun getTypeId :: "'c property_ref \<Rightarrow> type_id" where
  "getTypeId (IsInteger _) = TPropertyInteger"
| "getTypeId (IsIntegerConstraint _) = TPropertyIntegerConstraint"
| "getTypeId (IsPercent _) = TPropertyPercent"
| "getTypeId (IsPath _) = TPropertyPath"
| "getTypeId (IsEnumeration _) = TPropertyEnumeration"
| "getTypeId (IsIntegerList _) = TPropertyIntegerList"
| "getTypeId (IsIntegerSet _) = TPropertyIntegerSet"
| "getTypeId (IsFloat _) = TPropertyFloat"
| "getTypeId (IsFloatConstraint _) = TPropertyFloatConstraint"
| "getTypeId (IsPrecision _) = TPropertyPrecision"
| "getTypeId (IsFloatList _) = TPropertyFloatList"
| "getTypeId (IsString _) = TPropertyString"
| "getTypeId (IsFont _) = TPropertyFont"
| "getTypeId (IsPersistentObject _) = TPropertyPersistentObject"
| "getTypeId (IsUUID _) = TPropertyUUID"
| "getTypeId (IsStringList _) = TPropertyStringList"
| "getTypeId (IsMap _) = TPropertyMap"
| "getTypeId (IsBool _) = TPropertyBool"
| "getTypeId (IsBoolList _) = TPropertyBoolList"
| "getTypeId (IsColor _) = TPropertyColor"
| "getTypeId (IsColorList _) = TPropertyColorList"
| "getTypeId (IsMaterial _) = TPropertyMaterial"
| "getTypeId (IsMaterialList _) = TPropertyMaterialList"

text \<open>
  \<^verbatim>\<open>dynamic_cast<const PropertyInteger&>(from)._lValue\<close> and its siblings, one for each class
  that defines \<^verbatim>\<open>Paste\<close>: the member of the source when the object is of the class or of a
  class derived from it, \<open>None\<close> when the cast throws \<^verbatim>\<open>std::bad_cast\<close>.
\<close>

fun cast_PropertyInteger :: "'c property_ref \<Rightarrow> int option" where
  "cast_PropertyInteger (IsInteger q) = Some (lValue q)"
| "cast_PropertyInteger (IsIntegerConstraint q) = Some (lValue q)"
| "cast_PropertyInteger (IsPercent q) = Some (lValue q)"
| "cast_PropertyInteger _ = None"

fun cast_PropertyPath :: "'c property_ref \<Rightarrow> string option" where
  "cast_PropertyPath (IsPath q) = Some (cValue_path q)"
| "cast_PropertyPath _ = None"

fun cast_PropertyEnumeration :: "'c property_ref \<Rightarrow> Enumeration option" where
  "cast_PropertyEnumeration (IsEnumeration q) = Some (enum q)"
| "cast_PropertyEnumeration _ = None"

fun cast_PropertyIntegerList :: "'c property_ref \<Rightarrow> int list option" where
  "cast_PropertyIntegerList (IsIntegerList q) = Some (lValueList q)"
| "cast_PropertyIntegerList _ = None"

fun cast_PropertyIntegerSet :: "'c property_ref \<Rightarrow> int set option" where
  "cast_PropertyIntegerSet (IsIntegerSet q) = Some (lValueSet q)"
| "cast_PropertyIntegerSet _ = None"

fun cast_PropertyFloat :: "'c property_ref \<Rightarrow> real option" where
  "cast_PropertyFloat (IsFloat q) = Some (dValue q)"
| "cast_PropertyFloat (IsFloatConstraint q) = Some (dValue q)"
| "cast_PropertyFloat (IsPrecision q) = Some (dValue q)"
| "cast_PropertyFloat _ = None"

fun cast_PropertyFloatList :: "'c property_ref \<Rightarrow> real list option" where
  "cast_PropertyFloatList (IsFloatList q) = Some (lValueList q)"
| "cast_PropertyFloatList _ = None"

fun cast_PropertyString :: "'c property_ref \<Rightarrow> string option" where
  "cast_PropertyString (IsString q) = Some (cValue q)"
| "cast_PropertyString (IsFont q) = Some (cValue q)"
| "cast_PropertyString (IsPersistentObject q) = Some (cValue q)"
| "cast_PropertyString _ = None"

fun cast_PropertyPersistentObject :: "'c property_ref \<Rightarrow> (string \<times> nat option) option" where
  "cast_PropertyPersistentObject (IsPersistentObject q) = Some (cValue q, pObject q)"
| "cast_PropertyPersistentObject _ = None"

fun cast_PropertyUUID :: "'c property_ref \<Rightarrow> string option" where
  "cast_PropertyUUID (IsUUID q) = Some (uuid_value q)"
| "cast_PropertyUUID _ = None"

fun cast_PropertyStringList :: "'c property_ref \<Rightarrow> string list option" where
  "cast_PropertyStringList (IsStringList q) = Some (lValueList q)"
| "cast_PropertyStringList _ = None"

fun cast_PropertyMap :: "'c property_ref \<Rightarrow> (string \<rightharpoonup> string) option" where
  "cast_PropertyMap (IsMap q) = Some (lValueList_map q)"
| "cast_PropertyMap _ = None"

fun cast_PropertyBool :: "'c property_ref \<Rightarrow> bool option" where
  "cast_PropertyBool (IsBool q) = Some (lValue_bool q)"
| "cast_PropertyBool _ = None"

fun cast_PropertyBoolList :: "'c property_ref \<Rightarrow> bool list option" where
  "cast_PropertyBoolList (IsBoolList q) = Some (lValueList q)"
| "cast_PropertyBoolList _ = None"

fun cast_PropertyColor :: "'c property_ref \<Rightarrow> 'c option" where
  "cast_PropertyColor (IsColor q) = Some (cCol q)"
| "cast_PropertyColor _ = None"

fun cast_PropertyColorList :: "'c property_ref \<Rightarrow> 'c list option" where
  "cast_PropertyColorList (IsColorList q) = Some (lValueList q)"
| "cast_PropertyColorList _ = None"

fun cast_PropertyMaterial :: "'c property_ref \<Rightarrow> 'c Material option" where
  "cast_PropertyMaterial (IsMaterial q) = Some (cMat q)"
| "cast_PropertyMaterial _ = None"

fun cast_PropertyMaterialList :: "'c property_ref \<Rightarrow> 'c Material list option" where
  "cast_PropertyMaterialList (IsMaterialList q) = Some (lValueList q)"
| "cast_PropertyMaterialList _ = None"

text \<open>
  The 18 \<^verbatim>\<open>Paste\<close> functions of the file. Nine of them call \<^verbatim>\<open>aboutToSetValue()\<close> before they
  evaluate the cast; the others evaluate the cast first, as the argument of \<^verbatim>\<open>setValues\<close>
  or \<^verbatim>\<open>setValue\<close> or as the initialiser of a reference. The classes without a \<^verbatim>\<open>Paste\<close> of
  their own (\<^verbatim>\<open>PropertyIntegerConstraint\<close>, \<^verbatim>\<open>PropertyPercent\<close>, \<^verbatim>\<open>PropertyFloatConstraint\<close>,
  \<^verbatim>\<open>PropertyPrecision\<close>, \<^verbatim>\<open>PropertyFont\<close>) inherit the one of their base class, which is why
  the cell of \<open>PropertyInteger_Paste\<close>, \<open>PropertyFloat_Paste\<close> and \<open>PropertyString_Paste\<close>
  may have more fields.
\<close>

definition PropertyInteger_Paste ::
  "'c property_ref \<Rightarrow> 'a PropertyInteger_scheme \<Rightarrow> 'a PropertyInteger_scheme result" where
  "PropertyInteger_Paste from p =
     (let p1 = aboutToSetValue p in
      case cast_PropertyInteger from of
        None \<Rightarrow> Throws BadCast p1
      | Some v \<Rightarrow> Returns (hasSetValue (p1\<lparr>lValue := v\<rparr>)))"

definition PropertyPath_Paste ::
  "'c property_ref \<Rightarrow> 'a PropertyPath_scheme \<Rightarrow> 'a PropertyPath_scheme result" where
  "PropertyPath_Paste from p =
     (let p1 = aboutToSetValue p in
      case cast_PropertyPath from of
        None \<Rightarrow> Throws BadCast p1
      | Some v \<Rightarrow> Returns (hasSetValue (p1\<lparr>cValue_path := v\<rparr>)))"

text \<open>\<^verbatim>\<open>PropertyEnumeration::setValue(const Enumeration&)\<close>, which \<^verbatim>\<open>Paste\<close> calls.\<close>

definition PropertyEnumeration_setValue ::
  "Enumeration \<Rightarrow> 'a PropertyEnumeration_scheme \<Rightarrow> 'a PropertyEnumeration_scheme" where
  "PropertyEnumeration_setValue source p = hasSetValue ((aboutToSetValue p)\<lparr>enum := source\<rparr>)"

definition PropertyEnumeration_Paste ::
  "'c property_ref \<Rightarrow> 'a PropertyEnumeration_scheme \<Rightarrow> 'a PropertyEnumeration_scheme result" where
  "PropertyEnumeration_Paste from p =
     (case cast_PropertyEnumeration from of
        None \<Rightarrow> Throws BadCast p
      | Some prop_enum \<Rightarrow> Returns (PropertyEnumeration_setValue prop_enum p))"

definition PropertyIntegerList_Paste ::
  "'c property_ref \<Rightarrow> int PropertyLists \<Rightarrow> int PropertyLists result" where
  "PropertyIntegerList_Paste from p =
     (case cast_PropertyIntegerList from of
        None \<Rightarrow> Throws BadCast p
      | Some v \<Rightarrow> Returns (PropertyListsT_setValues v p))"

definition PropertyIntegerSet_Paste ::
  "'c property_ref \<Rightarrow> 'a PropertyIntegerSet_scheme \<Rightarrow> 'a PropertyIntegerSet_scheme result" where
  "PropertyIntegerSet_Paste from p =
     (let p1 = aboutToSetValue p in
      case cast_PropertyIntegerSet from of
        None \<Rightarrow> Throws BadCast p1
      | Some v \<Rightarrow> Returns (hasSetValue (p1\<lparr>lValueSet := v\<rparr>)))"

definition PropertyFloat_Paste ::
  "'c property_ref \<Rightarrow> 'a PropertyFloat_scheme \<Rightarrow> 'a PropertyFloat_scheme result" where
  "PropertyFloat_Paste from p =
     (let p1 = aboutToSetValue p in
      case cast_PropertyFloat from of
        None \<Rightarrow> Throws BadCast p1
      | Some v \<Rightarrow> Returns (hasSetValue (p1\<lparr>dValue := v\<rparr>)))"

definition PropertyFloatList_Paste ::
  "'c property_ref \<Rightarrow> real PropertyLists \<Rightarrow> real PropertyLists result" where
  "PropertyFloatList_Paste from p =
     (case cast_PropertyFloatList from of
        None \<Rightarrow> Throws BadCast p
      | Some v \<Rightarrow> Returns (PropertyListsT_setValues v p))"

definition PropertyString_Paste ::
  "LabelEnv \<Rightarrow> 'c property_ref \<Rightarrow> 'a PropertyString_scheme \<Rightarrow>
   'a PropertyString_scheme result" where
  "PropertyString_Paste env from p =
     (case cast_PropertyString from of
        None \<Rightarrow> Throws BadCast p
      | Some from_cValue \<Rightarrow> Returns (PropertyString_setValue_string env from_cValue p))"

definition PropertyUUID_Paste ::
  "'c property_ref \<Rightarrow> 'a PropertyUUID_scheme \<Rightarrow> 'a PropertyUUID_scheme result" where
  "PropertyUUID_Paste from p =
     (let p1 = aboutToSetValue p in
      case cast_PropertyUUID from of
        None \<Rightarrow> Throws BadCast p1
      | Some v \<Rightarrow> Returns (hasSetValue (p1\<lparr>uuid_value := v\<rparr>)))"

definition PropertyStringList_Paste ::
  "'c property_ref \<Rightarrow> string PropertyLists \<Rightarrow> string PropertyLists result" where
  "PropertyStringList_Paste from p =
     (case cast_PropertyStringList from of
        None \<Rightarrow> Throws BadCast p
      | Some v \<Rightarrow> Returns (PropertyListsT_setValues v p))"

definition PropertyMap_Paste ::
  "'c property_ref \<Rightarrow> 'a PropertyMap_scheme \<Rightarrow> 'a PropertyMap_scheme result" where
  "PropertyMap_Paste from p =
     (let p1 = aboutToSetValue p in
      case cast_PropertyMap from of
        None \<Rightarrow> Throws BadCast p1
      | Some v \<Rightarrow> Returns (hasSetValue (p1\<lparr>lValueList_map := v\<rparr>)))"

definition PropertyBool_Paste ::
  "'c property_ref \<Rightarrow> 'a PropertyBool_scheme \<Rightarrow> 'a PropertyBool_scheme result" where
  "PropertyBool_Paste from p =
     (let p1 = aboutToSetValue p in
      case cast_PropertyBool from of
        None \<Rightarrow> Throws BadCast p1
      | Some v \<Rightarrow> Returns (hasSetValue (p1\<lparr>lValue_bool := v\<rparr>)))"

definition PropertyBoolList_Paste ::
  "'c property_ref \<Rightarrow> bool PropertyLists \<Rightarrow> bool PropertyLists result" where
  "PropertyBoolList_Paste from p =
     (case cast_PropertyBoolList from of
        None \<Rightarrow> Throws BadCast p
      | Some v \<Rightarrow> Returns (PropertyListsT_setValues v p))"

definition PropertyColor_Paste ::
  "'c property_ref \<Rightarrow> ('c, 'a) PropertyColor_scheme \<Rightarrow> ('c, 'a) PropertyColor_scheme result" where
  "PropertyColor_Paste from p =
     (let p1 = aboutToSetValue p in
      case cast_PropertyColor from of
        None \<Rightarrow> Throws BadCast p1
      | Some v \<Rightarrow> Returns (hasSetValue (p1\<lparr>cCol := v\<rparr>)))"

definition PropertyColorList_Paste ::
  "'c property_ref \<Rightarrow> 'c PropertyLists \<Rightarrow> 'c PropertyLists result" where
  "PropertyColorList_Paste from p =
     (case cast_PropertyColorList from of
        None \<Rightarrow> Throws BadCast p
      | Some v \<Rightarrow> Returns (PropertyListsT_setValues v p))"

definition PropertyMaterial_Paste ::
  "'c property_ref \<Rightarrow> ('c, 'a) PropertyMaterial_scheme \<Rightarrow>
   ('c, 'a) PropertyMaterial_scheme result" where
  "PropertyMaterial_Paste from p =
     (let p1 = aboutToSetValue p in
      case cast_PropertyMaterial from of
        None \<Rightarrow> Throws BadCast p1
      | Some v \<Rightarrow> Returns (hasSetValue (p1\<lparr>cMat := v\<rparr>)))"

definition PropertyMaterialList_Paste ::
  "'c Material \<Rightarrow> 'c property_ref \<Rightarrow> 'c PropertyMaterialList \<Rightarrow>
   'c PropertyMaterialList result" where
  "PropertyMaterialList_Paste m0 from p =
     (case cast_PropertyMaterialList from of
        None \<Rightarrow> Throws BadCast p
      | Some v \<Rightarrow> Returns (PropertyMaterialList_setValues m0 v p))"

definition PropertyPersistentObject_Paste ::
  "'c property_ref \<Rightarrow> 'a PropertyPersistentObject_scheme \<Rightarrow>
   'a PropertyPersistentObject_scheme result" where
  "PropertyPersistentObject_Paste from p =
     (case cast_PropertyPersistentObject from of
        None \<Rightarrow> Throws BadCast p
      | Some (prop_cValue, prop_pObject) \<Rightarrow>
          if cValue p \<noteq> prop_cValue \<or> pObject p \<noteq> prop_pObject
          then Returns (hasSetValue ((aboutToSetValue p)\<lparr>cValue := prop_cValue,
                                                        pObject := prop_pObject\<rparr>))
          else Returns p)"

section \<open>The binary file of PropertyMaterialList\<close>

text \<open>
  \<^verbatim>\<open>Base::OutputStream\<close> and \<^verbatim>\<open>Base::InputStream\<close> (\<^verbatim>\<open>Stream.h\<close>) are outside the sources. The
  file is a sequence of bytes; \<^verbatim>\<open>str << x\<close> appends the four bytes of a 32-bit value,
  least significant first (the default byte order of the stream), and \<^verbatim>\<open>str >> x\<close> takes
  four bytes. A float goes through the same two operators as its 32 bits.
\<close>

definition uint32_bytes :: "32 word \<Rightarrow> string" where
  "uint32_bytes w = map (\<lambda>k. char_of (drop_bit (8 * k) (unat w))) [0, 1, 2, 3]"

definition bytes_uint32 :: "string \<Rightarrow> 32 word" where
  "bytes_uint32 b = word_of_nat (foldr (\<lambda>c n. of_char c + 256 * n) b 0)"

definition put_uint32 :: "32 word \<Rightarrow> string \<Rightarrow> string" where
  "put_uint32 w str = str @ uint32_bytes w"

definition put_bytes :: "string \<Rightarrow> nat \<Rightarrow> string \<Rightarrow> string" where
  "put_bytes data n str = str @ take n data"

definition get_uint32 :: "string \<Rightarrow> (32 word \<times> string) option" where
  "get_uint32 str = (if length str < 4 then None else Some (bytes_uint32 (take 4 str), drop 4 str))"

definition get_bytes :: "nat \<Rightarrow> string \<Rightarrow> (string \<times> string) option" where
  "get_bytes n str = (if length str < n then None else Some (take n str, drop n str))"

definition writeString :: "string \<Rightarrow> string \<Rightarrow> string" where
  "writeString val str =
     (let uCt = (word_of_nat (length val) :: 32 word)
      in put_bytes val (unat uCt) (put_uint32 uCt str))"

definition readString :: "string \<Rightarrow> (string \<times> string) option" where
  "readString str = do {
     (uCt, str1) \<leftarrow> get_uint32 str;
     (temp, str2) \<leftarrow> get_bytes (unat uCt) str1;
     Some (temp, str2)
   }"

text \<open>The body of the first loop of \<^verbatim>\<open>SaveDocFile\<close>, and the body of the second.\<close>

definition write_fixed :: "('c \<Rightarrow> 32 word) \<Rightarrow> 'c Material \<Rightarrow> string \<Rightarrow> string" where
  "write_fixed getPackedValue it str =
     put_uint32 (transparency it)
       (put_uint32 (shininess it)
         (put_uint32 (getPackedValue (emissiveColor it))
           (put_uint32 (getPackedValue (specularColor it))
             (put_uint32 (getPackedValue (diffuseColor it))
               (put_uint32 (getPackedValue (ambientColor it)) str)))))"

definition write_strings :: "'c Material \<Rightarrow> string \<Rightarrow> string" where
  "write_strings it str =
     writeString (uuid it) (writeString (imagePath it) (writeString (image it) str))"

definition SaveDocFile :: "('c \<Rightarrow> 32 word) \<Rightarrow> 'c PropertyMaterialList \<Rightarrow> string" where
  "SaveDocFile getPackedValue p =
     (let uCt = (word_of_nat (length (lValueList p)) :: 32 word);
          str1 = put_uint32 uCt [];
          str2 = fold (write_fixed getPackedValue) (lValueList p) str1;
          str3 = fold write_strings (lValueList p) str2
      in str3)"

text \<open>
  The first loop of \<^verbatim>\<open>RestoreDocFileV0\<close> and of \<^verbatim>\<open>RestoreDocFileV3\<close> over
  \<^verbatim>\<open>std::vector<Material> values(count)\<close>: six reads for each default-constructed element.
\<close>

fun read_fixed ::
  "(32 word \<Rightarrow> 'c \<Rightarrow> 'c) \<Rightarrow> 'c Material \<Rightarrow> nat \<Rightarrow> string \<Rightarrow> ('c Material list \<times> string) option" where
  "read_fixed setPackedValue m0 0 str = Some ([], str)"
| "read_fixed setPackedValue m0 (Suc n) str = do {
     (v1, str1) \<leftarrow> get_uint32 str;
     (v2, str2) \<leftarrow> get_uint32 str1;
     (v3, str3) \<leftarrow> get_uint32 str2;
     (v4, str4) \<leftarrow> get_uint32 str3;
     (f1, str5) \<leftarrow> get_uint32 str4;
     (f2, str6) \<leftarrow> get_uint32 str5;
     (values, str7) \<leftarrow> read_fixed setPackedValue m0 n str6;
     Some ((let it = Material_ctor m0 in
            it\<lparr>ambientColor := setPackedValue v1 (ambientColor it),
               diffuseColor := setPackedValue v2 (diffuseColor it),
               specularColor := setPackedValue v3 (specularColor it),
               emissiveColor := setPackedValue v4 (emissiveColor it),
               shininess := f1, transparency := f2\<rparr>) # values, str7)
   }"

text \<open>The second loop of \<^verbatim>\<open>RestoreDocFileV3\<close>: three strings for each element.\<close>

fun read_strings :: "'c Material list \<Rightarrow> string \<Rightarrow> ('c Material list \<times> string) option" where
  "read_strings [] str = Some ([], str)"
| "read_strings (it # its) str = do {
     (s1, str1) \<leftarrow> readString str;
     (s2, str2) \<leftarrow> readString str1;
     (s3, str3) \<leftarrow> readString str2;
     (values, str4) \<leftarrow> read_strings its str3;
     Some (it\<lparr>image := s1, imagePath := s2, uuid := s3\<rparr> # values, str4)
   }"

definition RestoreDocFileV0 ::
  "(32 word \<Rightarrow> 'c \<Rightarrow> 'c) \<Rightarrow> 'c Material \<Rightarrow> 32 word \<Rightarrow> string \<Rightarrow> 'c PropertyMaterialList \<Rightarrow>
   'c PropertyMaterialList result" where
  "RestoreDocFileV0 setPackedValue m0 count str p =
     (case read_fixed setPackedValue m0 (unat count) str of
        None \<Rightarrow> Throws StreamExhausted p
      | Some (values, _) \<Rightarrow> Returns (PropertyMaterialList_setValues m0 values p))"

definition RestoreDocFileV3 ::
  "(32 word \<Rightarrow> 'c \<Rightarrow> 'c) \<Rightarrow> 'c Material \<Rightarrow> string \<Rightarrow> 'c PropertyMaterialList \<Rightarrow>
   'c PropertyMaterialList result" where
  "RestoreDocFileV3 setPackedValue m0 str p =
     (case do {
             (count, str1) \<leftarrow> get_uint32 str;
             (values, str2) \<leftarrow> read_fixed setPackedValue m0 (unat count) str1;
             read_strings values str2
           } of
        None \<Rightarrow> Throws StreamExhausted p
      | Some (values, _) \<Rightarrow> Returns (PropertyMaterialList_setValues m0 values p))"

text \<open>\<^verbatim>\<open>version\<close> is an \<^verbatim>\<open>int32_t\<close>: \<open>sint\<close> reads the four bytes as a signed value.\<close>

definition RestoreDocFile ::
  "(32 word \<Rightarrow> 'c \<Rightarrow> 'c) \<Rightarrow> 'c Material \<Rightarrow> string \<Rightarrow> 'c PropertyMaterialList \<Rightarrow>
   'c PropertyMaterialList result" where
  "RestoreDocFile setPackedValue m0 str p =
     (if formatVersion p = Version_2 then
        (case get_uint32 str of
           None \<Rightarrow> Throws StreamExhausted p
         | Some (count, str1) \<Rightarrow> RestoreDocFileV0 setPackedValue m0 count str1 p)
      else if formatVersion p = Version_3 then RestoreDocFileV3 setPackedValue m0 str p
      else
        (case get_uint32 str of
           None \<Rightarrow> Throws StreamExhausted p
         | Some (version, str1) \<Rightarrow>
             if sint version < 0 then
               (case get_uint32 str1 of
                  None \<Rightarrow> Throws StreamExhausted p
                | Some (count, str2) \<Rightarrow> RestoreDocFileV0 setPackedValue m0 count str2 p)
             else RestoreDocFileV0 setPackedValue m0 version str1 p))"

section \<open>Constants of the source, examples, and the layout as the specification words it\<close>

text \<open>The static descriptor of \<^verbatim>\<open>PropertyPercent\<close>: \<^verbatim>\<open>percent = {0, 100, 1}\<close>.\<close>

definition percent :: "int Constraints" where
  "percent = \<lparr>LowerBound = 0, UpperBound = 100, StepSize = 1, candelete = False\<rparr>"

text \<open>The dynamic values for which \<^verbatim>\<open>PyLong_Check\<close> or \<^verbatim>\<open>PyFloat_Check\<close> holds.\<close>

fun is_numeric :: "pyobj \<Rightarrow> bool" where
  "is_numeric (PyLong _) = True"
| "is_numeric (PyFloat _) = True"
| "is_numeric _ = False"

text \<open>The surroundings of a string cell that is not the \<^verbatim>\<open>Label\<close> of a document object.\<close>

definition no_label :: LabelEnv where
  "no_label = \<lparr>isLabel = False, onProposedLabelChange = (\<lambda>s. (s, 0)),
               activeTransaction = False, nameInDocument = []\<rparr>"

text \<open>
  The surroundings of the \<^verbatim>\<open>Label\<close> of an object \<^verbatim>\<open>Box\<close>, outside any transaction, where
  \<^verbatim>\<open>onProposedLabelChange\<close> makes the proposed label unique by a suffix and returns one change
  for another cell.
\<close>

definition box_label :: LabelEnv where
  "box_label = \<lparr>isLabel = True, onProposedLabelChange = (\<lambda>s. (s @ ''001'', 1)),
                activeTransaction = False, nameInDocument = ''Box''\<rparr>"

text \<open>
  An enumeration with three labels, for the examples, and an instance of the parameter
  \<open>enum_setEnums\<close> for them (\<^verbatim>\<open>Enumeration::setEnums\<close> itself is outside the sources): it
  replaces the labels.
\<close>

definition three_labels :: Enumeration where
  "three_labels = \<lparr>selectedIndex = 1, labels = [''a'', ''b'', ''c''], isCustom = True\<rparr>"

definition replace_labels :: "string list \<Rightarrow> Enumeration \<Rightarrow> Enumeration" where
  "replace_labels ls e = e\<lparr>labels := ls\<rparr>"

text \<open>
  In the examples a colour is its packed value: \<^verbatim>\<open>getPackedValue\<close> is the identity and
  \<^verbatim>\<open>setPackedValue\<close> replaces the colour.
\<close>

definition set_packed :: "32 word \<Rightarrow> 32 word \<Rightarrow> 32 word" where
  "set_packed rgba col = rgba"

text \<open>
  A material and a list of two materials for the examples, the colours in packed form.
\<close>

definition plain_material :: "32 word Material" where
  "plain_material = \<lparr>ambientColor = 0x333333FF, diffuseColor = 0xCCCCCCFF,
     specularColor = 0x000000FF, emissiveColor = 0x000000FF, shininess = 0x3F666666,
     transparency = 0, image = [], imagePath = [], uuid = []\<rparr>"

definition two_materials :: "32 word PropertyMaterialList" where
  "two_materials = \<lparr>hooks = [], lValueList = [plain_material, plain_material\<lparr>uuid := ''u''\<rparr>],
     formatVersion = 3\<rparr>"

text \<open>
  The layout of the file in the words of the specification. A version-0 or version-2 file
  is the element count followed by one fixed record for each element: four packed
  colours and two floats. A string is stored as its length followed by its bytes, and a
  version-3 file is such a legacy file followed by one string record (image, imagePath,
  uuid) for each element.
\<close>

definition fixed_record :: "('c \<Rightarrow> 32 word) \<Rightarrow> 'c Material \<Rightarrow> string" where
  "fixed_record getPackedValue it =
     uint32_bytes (getPackedValue (ambientColor it)) @ uint32_bytes (getPackedValue (diffuseColor it)) @
     uint32_bytes (getPackedValue (specularColor it)) @ uint32_bytes (getPackedValue (emissiveColor it)) @
     uint32_bytes (shininess it) @ uint32_bytes (transparency it)"

definition string_bytes :: "string \<Rightarrow> string" where
  "string_bytes val = uint32_bytes (word_of_nat (length val)) @ val"

definition string_record :: "'c Material \<Rightarrow> string" where
  "string_record it = string_bytes (image it) @ string_bytes (imagePath it) @ string_bytes (uuid it)"

definition legacy_file :: "('c \<Rightarrow> 32 word) \<Rightarrow> 'c Material list \<Rightarrow> string" where
  "legacy_file getPackedValue xs =
     uint32_bytes (word_of_nat (length xs)) @ concat (map (fixed_record getPackedValue) xs)"

text \<open>
  What the six fixed fields of an element are after they have been written and read back
  into a default-constructed material; the strings of the result are empty.
\<close>

definition restored ::
  "(32 word \<Rightarrow> 'c \<Rightarrow> 'c) \<Rightarrow> ('c \<Rightarrow> 32 word) \<Rightarrow> 'c Material \<Rightarrow> 'c Material \<Rightarrow> 'c Material" where
  "restored setPackedValue getPackedValue m0 it =
     (let new = Material_ctor m0 in
      new\<lparr>ambientColor := setPackedValue (getPackedValue (ambientColor it)) (ambientColor new),
          diffuseColor := setPackedValue (getPackedValue (diffuseColor it)) (diffuseColor new),
          specularColor := setPackedValue (getPackedValue (specularColor it)) (specularColor new),
          emissiveColor := setPackedValue (getPackedValue (emissiveColor it)) (emissiveColor new),
          shininess := shininess it, transparency := transparency it\<rparr>)"

text \<open>The lengths of the three strings fit the \<^verbatim>\<open>uint32_t\<close> that \<^verbatim>\<open>writeString\<close> stores.\<close>

definition strings_fit :: "'c Material \<Rightarrow> bool" where
  "strings_fit it \<longleftrightarrow>
     length (image it) < 2 ^ 32 \<and> length (imagePath it) < 2 ^ 32 \<and> length (uuid it) < 2 ^ 32"

text \<open>
  A file as a development build wrote it: a negative version tag, then the legacy file
  of one material.
\<close>

definition dev_file :: string where
  "dev_file = uint32_bytes (- 1) @ legacy_file id [plain_material]"

section \<open>Properties\<close>

subsection \<open>Helper facts\<close>

lemmas bracket_defs = aboutToSetValue_def hasSetValue_def

lemma bound_by_clamp:
  "LowerBound c \<le> UpperBound c \<Longrightarrow> bound_by c x = clamp x (LowerBound c) (UpperBound c)"
  by (auto simp: bound_by_def clamp_def max_def min_def)

subsection \<open>C1: a plain number assigned to a constrained cell\<close>

text \<open>
  Claim C1, as stated, fails. A Python float is a plain number, and the constrained integer
  cell rejects it with a type error; and the Python int \<open>2 ^ 63\<close>, which \<^verbatim>\<open>PyLong_AsLong\<close>
  reads as \<open>-1\<close>, leaves 0 in a cell with the descriptor \<open>[0, 100]\<close>, not
  \<open>clamp (2 ^ 63) 0 100 = 100\<close>.
\<close>

theorem C1_integer_cell_rejects_float:
  "PropertyIntegerConstraint_setPyObject (PyFloat (5 / 2))
     \<lparr>hooks = [], lValue = 7, ConstStruct_l = Some percent\<rparr> =
   Throws (TypeError ''type must be int, dict or tuple, not float'')
     \<lparr>hooks = [], lValue = 7, ConstStruct_l = Some percent\<rparr>
   \<and> PropertyIntegerConstraint_setPyObject (PyLong (2 ^ 63))
     \<lparr>hooks = [], lValue = 7, ConstStruct_l = Some percent\<rparr> =
   Returns \<lparr>hooks = [AboutToSetValue, HasSetValue], lValue = 0, ConstStruct_l = Some percent\<rparr>
   \<and> clamp (2 ^ 63) (LowerBound percent) (UpperBound percent) = (100 :: int)"
  by (simp add: percent_def bound_by_def PyLong_AsLong_def LONG_MIN_def LONG_MAX_def
        bracket_defs clamp_def)

text \<open>
  Claim C1, amended. \<^verbatim>\<open>PyLong_AsLong\<close> reads a Python int \<open>n\<close> as \<open>n\<close> when it fits a \<^verbatim>\<open>long\<close> and
  as \<open>-1\<close> when it does not. With an installed descriptor \<open>[lo, hi]\<close> (\<open>lo \<le> hi\<close>),
  \<^verbatim>\<open>setPyObject\<close> of the constrained integer cell returns for a Python int and leaves
  \<open>clamp l lo hi\<close>, \<open>l\<close> being the \<^verbatim>\<open>long\<close> read; \<^verbatim>\<open>setPyObject\<close> of the constrained float cell
  returns for a finite Python float \<open>x\<close> and leaves \<open>clamp x lo hi\<close>, and returns for a Python
  int and leaves \<open>clamp d lo hi\<close>, \<open>d\<close> being the double that the \<^verbatim>\<open>long\<close> read converts to (the
  \<^verbatim>\<open>long\<close> itself up to \<open>2 ^ 53\<close> in magnitude). With no descriptor installed \<open>l\<close>, \<open>x\<close> and \<open>d\<close>
  are stored as they are. Each of these assignments fires one notification bracket. The
  integer cell rejects a Python float with the type error
  \<^verbatim>\<open>type must be int, dict or tuple, not float\<close>, the cell unchanged.
\<close>

theorem C1_setPyObject_plain_number:
  fixes pl :: "'a PropertyIntegerConstraint_scheme" and pd :: "'b PropertyFloatConstraint_scheme"
  assumes "LowerBound cl \<le> UpperBound cl" and "LowerBound cd \<le> UpperBound cd"
  shows "PropertyIntegerConstraint_setPyObject (PyLong n) (pl\<lparr>ConstStruct_l := Some cl\<rparr>) =
           Returns (pl\<lparr>hooks := hooks pl @ [AboutToSetValue, HasSetValue],
                       lValue := clamp (PyLong_AsLong n) (LowerBound cl) (UpperBound cl),
                       ConstStruct_l := Some cl\<rparr>)
       \<and> PropertyIntegerConstraint_setPyObject (PyLong n) (pl\<lparr>ConstStruct_l := None\<rparr>) =
           Returns (pl\<lparr>hooks := hooks pl @ [AboutToSetValue, HasSetValue],
                       lValue := PyLong_AsLong n, ConstStruct_l := None\<rparr>)
       \<and> (LONG_MIN \<le> n \<and> n \<le> LONG_MAX \<longrightarrow> PyLong_AsLong n = n)
       \<and> (n < LONG_MIN \<or> LONG_MAX < n \<longrightarrow> PyLong_AsLong n = - 1)
       \<and> PropertyIntegerConstraint_setPyObject (PyFloat x) pl =
           Throws (TypeError ''type must be int, dict or tuple, not float'') pl
       \<and> PropertyFloatConstraint_setPyObject rnd (PyFloat x) (pd\<lparr>ConstStruct_d := Some cd\<rparr>) =
           Returns (pd\<lparr>hooks := hooks pd @ [AboutToSetValue, HasSetValue],
                       dValue := clamp x (LowerBound cd) (UpperBound cd),
                       ConstStruct_d := Some cd\<rparr>)
       \<and> PropertyFloatConstraint_setPyObject rnd (PyFloat x) (pd\<lparr>ConstStruct_d := None\<rparr>) =
           Returns (pd\<lparr>hooks := hooks pd @ [AboutToSetValue, HasSetValue],
                       dValue := x, ConstStruct_d := None\<rparr>)
       \<and> PropertyFloatConstraint_setPyObject rnd (PyLong n) (pd\<lparr>ConstStruct_d := Some cd\<rparr>) =
           Returns (pd\<lparr>hooks := hooks pd @ [AboutToSetValue, HasSetValue],
                       dValue := clamp (long_to_double rnd (PyLong_AsLong n))
                                   (LowerBound cd) (UpperBound cd),
                       ConstStruct_d := Some cd\<rparr>)
       \<and> PropertyFloatConstraint_setPyObject rnd (PyLong n) (pd\<lparr>ConstStruct_d := None\<rparr>) =
           Returns (pd\<lparr>hooks := hooks pd @ [AboutToSetValue, HasSetValue],
                       dValue := long_to_double rnd (PyLong_AsLong n), ConstStruct_d := None\<rparr>)
       \<and> (\<bar>PyLong_AsLong n\<bar> \<le> 2 ^ 53 \<longrightarrow>
            long_to_double rnd (PyLong_AsLong n) = real_of_int (PyLong_AsLong n))"
  using assms
  by (intro conjI; simp add: bound_by_clamp PyLong_AsLong_def long_to_double_def
        int_to_double_def bracket_defs)

text \<open>
  At the descriptor of \<^verbatim>\<open>PropertyPercent\<close>, 150 is stored as 100 and a float is rejected; at
  the descriptor \<open>[0, 1]\<close> of a float cell, \<open>-1.5\<close> is stored as 0 and the int 150 as 1.
\<close>

theorem C1_setPyObject_plain_number_witness:
  "PropertyIntegerConstraint_setPyObject (PyLong 150)
     \<lparr>hooks = [], lValue = 7, ConstStruct_l = Some percent\<rparr> =
   Returns \<lparr>hooks = [AboutToSetValue, HasSetValue], lValue = 100, ConstStruct_l = Some percent\<rparr>
   \<and> PropertyIntegerConstraint_setPyObject (PyFloat (- 3 / 2))
     \<lparr>hooks = [], lValue = 7, ConstStruct_l = None\<rparr> =
   Throws (TypeError ''type must be int, dict or tuple, not float'')
     \<lparr>hooks = [], lValue = 7, ConstStruct_l = None\<rparr>
   \<and> PropertyFloatConstraint_setPyObject real_of_int (PyFloat (- 3 / 2))
     \<lparr>hooks = [], dValue = 7, ConstStruct_d =
        Some \<lparr>LowerBound = 0, UpperBound = 1, StepSize = 1 / 10, candelete = False\<rparr>\<rparr> =
   Returns \<lparr>hooks = [AboutToSetValue, HasSetValue], dValue = 0, ConstStruct_d =
        Some \<lparr>LowerBound = 0, UpperBound = 1, StepSize = 1 / 10, candelete = False\<rparr>\<rparr>
   \<and> PropertyFloatConstraint_setPyObject real_of_int (PyLong 150)
     \<lparr>hooks = [], dValue = 7, ConstStruct_d =
        Some \<lparr>LowerBound = 0, UpperBound = 1, StepSize = 1 / 10, candelete = False\<rparr>\<rparr> =
   Returns \<lparr>hooks = [AboutToSetValue, HasSetValue], dValue = 1, ConstStruct_d =
        Some \<lparr>LowerBound = 0, UpperBound = 1, StepSize = 1 / 10, candelete = False\<rparr>\<rparr>"
  using C1_setPyObject_plain_number [where cl = percent
      and cd = "\<lparr>LowerBound = 0, UpperBound = 1, StepSize = 1 / 10, candelete = False\<rparr>"
      and n = 150 and x = "- 3 / 2" and rnd = real_of_int
      and pl = "\<lparr>hooks = [], lValue = 7, ConstStruct_l = None\<rparr>"
      and pd = "\<lparr>hooks = [], dValue = 7, ConstStruct_d = None\<rparr>"]
  by (simp add: percent_def clamp_def PyLong_AsLong_def LONG_MIN_def LONG_MAX_def
        long_to_double_def int_to_double_def)

subsection \<open>C2: which dynamic values the plain numeric cells take\<close>

text \<open>Rounding to the nearest integer, a tie going away from zero.\<close>

lemma boost_round_half_up: "0 \<le> k \<Longrightarrow> boost_round (real_of_int k + 1 / 2) = k + 1"
  unfolding boost_round_def by (simp add: floor_add2[symmetric]) 

lemma boost_round_half_down: "k \<le> 0 \<Longrightarrow> boost_round (real_of_int k - 1 / 2) = k - 1"
  unfolding boost_round_def by (auto simp: ceiling_diff_one[symmetric])

lemma boost_round_nearest: "\<bar>real_of_int (boost_round v) - v\<bar> \<le> 1 / 2"
proof (cases "v < 0")
  case True
  then have "boost_round v = \<lceil>v - 1 / 2\<rceil>"
    by (simp add: boost_round_def)
  moreover have "v - 1 / 2 \<le> real_of_int \<lceil>v - 1 / 2\<rceil>"
    and "real_of_int \<lceil>v - 1 / 2\<rceil> < v - 1 / 2 + 1"
    by linarith+
  ultimately show ?thesis by linarith
next
  case False
  then have "boost_round v = \<lfloor>v + 1 / 2\<rfloor>"
    by (simp add: boost_round_def)
  moreover have "real_of_int \<lfloor>v + 1 / 2\<rfloor> \<le> v + 1 / 2"
    and "v + 1 / 2 < real_of_int \<lfloor>v + 1 / 2\<rfloor> + 1"
    by linarith+
  ultimately show ?thesis by linarith
qed

text \<open>
  Claim C2, as stated, fails: \<^verbatim>\<open>PropertyInteger::setPyObject\<close> tests \<^verbatim>\<open>PyLong_Check\<close> only,
  so the integer cell rejects the Python float \<open>2.5\<close> with a type error instead of
  storing 3.
\<close>

theorem C2_integer_cell_rejects_float:
  "PropertyInteger_setPyObject (PyFloat (5 / 2)) \<lparr>hooks = [], lValue = 0\<rparr> =
     Throws (TypeError ''type must be int, not float'') \<lparr>hooks = [], lValue = 0\<rparr>"
  by simp

text \<open>
  Claim C2, amended. The float cell takes a Python float and a Python int (the \<^verbatim>\<open>long\<close> read
  by \<^verbatim>\<open>PyLong_AsLong\<close>, widened to double); the integer cell's \<^verbatim>\<open>setPyObject\<close> takes a Python
  int only (it stores the \<^verbatim>\<open>long\<close> read by \<^verbatim>\<open>PyLong_AsLong\<close>, the int itself when it fits) and
  rejects a float with \<^verbatim>\<open>type must be int, not float\<close>; the rounding of a float, half away
  from zero, is what the integer cell's path-value setter \<^verbatim>\<open>setPathValue\<close> does with a
  \<^verbatim>\<open>double\<close>, a \<^verbatim>\<open>float\<close> and a \<^verbatim>\<open>Quantity\<close>: it stores the rounded value converted to \<^verbatim>\<open>long\<close>,
  which is the rounded value when that fits a \<^verbatim>\<open>long\<close>. Every dynamic value that is neither
  int nor float is rejected by both cells with a type error that ends in the name of its
  type, the cell unchanged.
\<close>

theorem C2_numeric_setters:
  fixes pl :: "'a PropertyInteger_scheme" and pd :: "'b PropertyFloat_scheme"
  shows "PropertyFloat_setPyObject rnd (PyFloat x) pd =
           Returns (pd\<lparr>hooks := hooks pd @ [AboutToSetValue, HasSetValue], dValue := x\<rparr>)
       \<and> PropertyFloat_setPyObject rnd (PyLong n) pd =
           Returns (pd\<lparr>hooks := hooks pd @ [AboutToSetValue, HasSetValue],
                       dValue := long_to_double rnd (PyLong_AsLong n)\<rparr>)
       \<and> PropertyInteger_setPyObject (PyLong n) pl =
           Returns (pl\<lparr>hooks := hooks pl @ [AboutToSetValue, HasSetValue],
                       lValue := PyLong_AsLong n\<rparr>)
       \<and> (LONG_MIN \<le> n \<and> n \<le> LONG_MAX \<longrightarrow> PyLong_AsLong n = n)
       \<and> (\<bar>n\<bar> \<le> 2 ^ 53 \<longrightarrow> long_to_double rnd n = real_of_int n)
       \<and> PropertyInteger_setPyObject (PyFloat x) pl =
           Throws (TypeError ''type must be int, not float'') pl
       \<and> PropertyInteger_setPathValue ovf None (AnyDouble x) pl =
           Returns (pl\<lparr>hooks := hooks pl @ [AboutToSetValue, HasSetValue],
                       lValue := double_to_long ovf (boost_round x)\<rparr>)
       \<and> PropertyInteger_setPathValue ovf None (AnyFloat x) pl =
           Returns (pl\<lparr>hooks := hooks pl @ [AboutToSetValue, HasSetValue],
                       lValue := double_to_long ovf (boost_round x)\<rparr>)
       \<and> PropertyInteger_setPathValue ovf None (AnyQuantity x) pl =
           Returns (pl\<lparr>hooks := hooks pl @ [AboutToSetValue, HasSetValue],
                       lValue := double_to_long ovf (boost_round x)\<rparr>)
       \<and> (LONG_MIN \<le> boost_round x \<and> boost_round x \<le> LONG_MAX \<longrightarrow>
            double_to_long ovf (boost_round x) = boost_round x)
       \<and> \<bar>real_of_int (boost_round x) - x\<bar> \<le> 1 / 2
       \<and> (0 \<le> k \<longrightarrow> boost_round (real_of_int k + 1 / 2) = k + 1)
       \<and> (k \<le> 0 \<longrightarrow> boost_round (real_of_int k - 1 / 2) = k - 1)
       \<and> (\<not> is_numeric v \<longrightarrow>
            PropertyInteger_setPyObject v pl =
              Throws (TypeError (''type must be int, not '' @ tp_name v)) pl
          \<and> PropertyFloat_setPyObject rnd v pd =
              Throws (TypeError (''type must be float or int, not '' @ tp_name v)) pd)"
proof (intro conjI impI)
  assume "\<not> is_numeric v"
  then show "PropertyInteger_setPyObject v pl =
      Throws (TypeError (''type must be int, not '' @ tp_name v)) pl"
    by (cases v) simp_all
next
  assume "\<not> is_numeric v"
  then show "PropertyFloat_setPyObject rnd v pd =
      Throws (TypeError (''type must be float or int, not '' @ tp_name v)) pd"
    by (cases v) simp_all
next
  show "\<bar>real_of_int (boost_round x) - x\<bar> \<le> 1 / 2"
    by (rule boost_round_nearest)
qed (simp_all add: bracket_defs long_to_double_def int_to_double_def PyLong_AsLong_def
       PropertyInteger_setValue_def double_to_long_def
       boost_round_half_up boost_round_half_down)

text \<open>
  On a string and on \<^verbatim>\<open>None\<close> the setters throw, naming \<^verbatim>\<open>str\<close> and \<^verbatim>\<open>NoneType\<close>; the
  float cell stores the int 3 as \<open>3.0\<close>; the path-value setter rounds \<open>2.5\<close> to 3 and
  \<open>-2.5\<close> to \<open>-3\<close>, whatever the build does with a value outside the range of \<^verbatim>\<open>long\<close>.
\<close>

theorem C2_numeric_setters_witness:
  "PropertyInteger_setPyObject (PyUnicode ''abc'') \<lparr>hooks = [], lValue = 0\<rparr> =
     Throws (TypeError ''type must be int, not str'') \<lparr>hooks = [], lValue = 0\<rparr>
   \<and> PropertyFloat_setPyObject real_of_int PyNone \<lparr>hooks = [], dValue = 0\<rparr> =
     Throws (TypeError ''type must be float or int, not NoneType'') \<lparr>hooks = [], dValue = 0\<rparr>
   \<and> PropertyFloat_setPyObject real_of_int (PyLong 3) \<lparr>hooks = [], dValue = 0\<rparr> =
     Returns \<lparr>hooks = [AboutToSetValue, HasSetValue], dValue = 3\<rparr>
   \<and> PropertyInteger_setPathValue (\<lambda>v. LONG_MIN) None (AnyDouble (5 / 2))
       \<lparr>hooks = [], lValue = 0\<rparr> =
     Returns \<lparr>hooks = [AboutToSetValue, HasSetValue], lValue = 3\<rparr>
   \<and> PropertyInteger_setPathValue (\<lambda>v. LONG_MIN) None (AnyDouble (- 5 / 2))
       \<lparr>hooks = [], lValue = 0\<rparr> =
     Returns \<lparr>hooks = [AboutToSetValue, HasSetValue], lValue = - 3\<rparr>"
  using C2_numeric_setters [where x = "5 / 2" and n = 3 and k = 2 and rnd = real_of_int
      and ovf = "\<lambda>v. LONG_MIN"
      and v = "PyUnicode ''abc''" and pd = "\<lparr>hooks = [], dValue = 0\<rparr>"
      and pl = "\<lparr>hooks = [], lValue = 0\<rparr>"]
    C2_numeric_setters [where x = "- 5 / 2" and n = 3 and k = "- 2" and rnd = real_of_int
      and ovf = "\<lambda>v. LONG_MIN"
      and v = PyNone and pd = "\<lparr>hooks = [], dValue = 0\<rparr>"
      and pl = "\<lparr>hooks = [], lValue = 0\<rparr>"]
  by (simp add: PyLong_AsLong_def LONG_MIN_def LONG_MAX_def bracket_defs long_to_double_def
        int_to_double_def PropertyInteger_setValue_def boost_round_def double_to_long_def)

subsection \<open>C7: Paste\<close>

lemma PropertyInteger_Paste_cases:
  "(\<not> isDerivedFrom (getTypeId from) TPropertyInteger \<longrightarrow>
     PropertyInteger_Paste from pn =
       Throws BadCast (pn\<lparr>hooks := hooks pn @ [AboutToSetValue]\<rparr>))
   \<and> (isDerivedFrom (getTypeId from) TPropertyInteger \<longrightarrow>
     (\<exists>v. cast_PropertyInteger from = Some v \<and>
        PropertyInteger_Paste from pn =
          Returns (pn\<lparr>hooks := hooks pn @ [AboutToSetValue, HasSetValue],
                     lValue := v\<rparr>)))"
  by (cases "from")
    (simp_all add: PropertyInteger_Paste_def bracket_defs isDerivedFrom.simps)

lemma PropertyPath_Paste_cases:
  "(\<not> isDerivedFrom (getTypeId from) TPropertyPath \<longrightarrow>
     PropertyPath_Paste from pp =
       Throws BadCast (pp\<lparr>hooks := hooks pp @ [AboutToSetValue]\<rparr>))
   \<and> (isDerivedFrom (getTypeId from) TPropertyPath \<longrightarrow>
     (\<exists>v. cast_PropertyPath from = Some v \<and>
        PropertyPath_Paste from pp =
          Returns (pp\<lparr>hooks := hooks pp @ [AboutToSetValue, HasSetValue],
                     cValue_path := v\<rparr>)))"
  by (cases "from")
    (simp_all add: PropertyPath_Paste_def bracket_defs isDerivedFrom.simps)

lemma PropertyIntegerSet_Paste_cases:
  "(\<not> isDerivedFrom (getTypeId from) TPropertyIntegerSet \<longrightarrow>
     PropertyIntegerSet_Paste from pis =
       Throws BadCast (pis\<lparr>hooks := hooks pis @ [AboutToSetValue]\<rparr>))
   \<and> (isDerivedFrom (getTypeId from) TPropertyIntegerSet \<longrightarrow>
     (\<exists>v. cast_PropertyIntegerSet from = Some v \<and>
        PropertyIntegerSet_Paste from pis =
          Returns (pis\<lparr>hooks := hooks pis @ [AboutToSetValue, HasSetValue],
                     lValueSet := v\<rparr>)))"
  by (cases "from")
    (simp_all add: PropertyIntegerSet_Paste_def bracket_defs isDerivedFrom.simps)

lemma PropertyFloat_Paste_cases:
  "(\<not> isDerivedFrom (getTypeId from) TPropertyFloat \<longrightarrow>
     PropertyFloat_Paste from pf =
       Throws BadCast (pf\<lparr>hooks := hooks pf @ [AboutToSetValue]\<rparr>))
   \<and> (isDerivedFrom (getTypeId from) TPropertyFloat \<longrightarrow>
     (\<exists>v. cast_PropertyFloat from = Some v \<and>
        PropertyFloat_Paste from pf =
          Returns (pf\<lparr>hooks := hooks pf @ [AboutToSetValue, HasSetValue],
                     dValue := v\<rparr>)))"
  by (cases "from")
    (simp_all add: PropertyFloat_Paste_def bracket_defs isDerivedFrom.simps)

lemma PropertyUUID_Paste_cases:
  "(\<not> isDerivedFrom (getTypeId from) TPropertyUUID \<longrightarrow>
     PropertyUUID_Paste from pu =
       Throws BadCast (pu\<lparr>hooks := hooks pu @ [AboutToSetValue]\<rparr>))
   \<and> (isDerivedFrom (getTypeId from) TPropertyUUID \<longrightarrow>
     (\<exists>v. cast_PropertyUUID from = Some v \<and>
        PropertyUUID_Paste from pu =
          Returns (pu\<lparr>hooks := hooks pu @ [AboutToSetValue, HasSetValue],
                     uuid_value := v\<rparr>)))"
  by (cases "from")
    (simp_all add: PropertyUUID_Paste_def bracket_defs isDerivedFrom.simps)

lemma PropertyMap_Paste_cases:
  "(\<not> isDerivedFrom (getTypeId from) TPropertyMap \<longrightarrow>
     PropertyMap_Paste from pmp =
       Throws BadCast (pmp\<lparr>hooks := hooks pmp @ [AboutToSetValue]\<rparr>))
   \<and> (isDerivedFrom (getTypeId from) TPropertyMap \<longrightarrow>
     (\<exists>v. cast_PropertyMap from = Some v \<and>
        PropertyMap_Paste from pmp =
          Returns (pmp\<lparr>hooks := hooks pmp @ [AboutToSetValue, HasSetValue],
                     lValueList_map := v\<rparr>)))"
  by (cases "from")
    (simp_all add: PropertyMap_Paste_def bracket_defs isDerivedFrom.simps)

lemma PropertyBool_Paste_cases:
  "(\<not> isDerivedFrom (getTypeId from) TPropertyBool \<longrightarrow>
     PropertyBool_Paste from pb =
       Throws BadCast (pb\<lparr>hooks := hooks pb @ [AboutToSetValue]\<rparr>))
   \<and> (isDerivedFrom (getTypeId from) TPropertyBool \<longrightarrow>
     (\<exists>v. cast_PropertyBool from = Some v \<and>
        PropertyBool_Paste from pb =
          Returns (pb\<lparr>hooks := hooks pb @ [AboutToSetValue, HasSetValue],
                     lValue_bool := v\<rparr>)))"
  by (cases "from")
    (simp_all add: PropertyBool_Paste_def bracket_defs isDerivedFrom.simps)

lemma PropertyColor_Paste_cases:
  "(\<not> isDerivedFrom (getTypeId from) TPropertyColor \<longrightarrow>
     PropertyColor_Paste from pc =
       Throws BadCast (pc\<lparr>hooks := hooks pc @ [AboutToSetValue]\<rparr>))
   \<and> (isDerivedFrom (getTypeId from) TPropertyColor \<longrightarrow>
     (\<exists>v. cast_PropertyColor from = Some v \<and>
        PropertyColor_Paste from pc =
          Returns (pc\<lparr>hooks := hooks pc @ [AboutToSetValue, HasSetValue],
                     cCol := v\<rparr>)))"
  by (cases "from")
    (simp_all add: PropertyColor_Paste_def bracket_defs isDerivedFrom.simps)

lemma PropertyMaterial_Paste_cases:
  "(\<not> isDerivedFrom (getTypeId from) TPropertyMaterial \<longrightarrow>
     PropertyMaterial_Paste from pm =
       Throws BadCast (pm\<lparr>hooks := hooks pm @ [AboutToSetValue]\<rparr>))
   \<and> (isDerivedFrom (getTypeId from) TPropertyMaterial \<longrightarrow>
     (\<exists>v. cast_PropertyMaterial from = Some v \<and>
        PropertyMaterial_Paste from pm =
          Returns (pm\<lparr>hooks := hooks pm @ [AboutToSetValue, HasSetValue],
                     cMat := v\<rparr>)))"
  by (cases "from")
    (simp_all add: PropertyMaterial_Paste_def bracket_defs isDerivedFrom.simps)

lemma PropertyEnumeration_Paste_cases:
  "(\<not> isDerivedFrom (getTypeId from) TPropertyEnumeration \<longrightarrow>
     PropertyEnumeration_Paste from pe = Throws BadCast pe)
   \<and> (isDerivedFrom (getTypeId from) TPropertyEnumeration \<longrightarrow>
     (\<exists>v. cast_PropertyEnumeration from = Some v \<and>
        PropertyEnumeration_Paste from pe =
          Returns (pe\<lparr>hooks := hooks pe @ [AboutToSetValue, HasSetValue],
                     enum := v\<rparr>)))"
  by (cases "from")
    (simp_all add: PropertyEnumeration_Paste_def PropertyEnumeration_setValue_def bracket_defs isDerivedFrom.simps)

lemma PropertyIntegerList_Paste_cases:
  "(\<not> isDerivedFrom (getTypeId from) TPropertyIntegerList \<longrightarrow>
     PropertyIntegerList_Paste from pil = Throws BadCast pil)
   \<and> (isDerivedFrom (getTypeId from) TPropertyIntegerList \<longrightarrow>
     (\<exists>v. cast_PropertyIntegerList from = Some v \<and>
        PropertyIntegerList_Paste from pil =
          Returns (pil\<lparr>hooks := hooks pil @ [AboutToSetValue, HasSetValue],
                     lValueList := v\<rparr>)))"
  by (cases "from")
    (simp_all add: PropertyIntegerList_Paste_def PropertyListsT_setValues_def bracket_defs isDerivedFrom.simps)

lemma PropertyFloatList_Paste_cases:
  "(\<not> isDerivedFrom (getTypeId from) TPropertyFloatList \<longrightarrow>
     PropertyFloatList_Paste from pfl = Throws BadCast pfl)
   \<and> (isDerivedFrom (getTypeId from) TPropertyFloatList \<longrightarrow>
     (\<exists>v. cast_PropertyFloatList from = Some v \<and>
        PropertyFloatList_Paste from pfl =
          Returns (pfl\<lparr>hooks := hooks pfl @ [AboutToSetValue, HasSetValue],
                     lValueList := v\<rparr>)))"
  by (cases "from")
    (simp_all add: PropertyFloatList_Paste_def PropertyListsT_setValues_def bracket_defs isDerivedFrom.simps)

lemma PropertyStringList_Paste_cases:
  "(\<not> isDerivedFrom (getTypeId from) TPropertyStringList \<longrightarrow>
     PropertyStringList_Paste from psl = Throws BadCast psl)
   \<and> (isDerivedFrom (getTypeId from) TPropertyStringList \<longrightarrow>
     (\<exists>v. cast_PropertyStringList from = Some v \<and>
        PropertyStringList_Paste from psl =
          Returns (psl\<lparr>hooks := hooks psl @ [AboutToSetValue, HasSetValue],
                     lValueList := v\<rparr>)))"
  by (cases "from")
    (simp_all add: PropertyStringList_Paste_def PropertyListsT_setValues_def bracket_defs isDerivedFrom.simps)

lemma PropertyBoolList_Paste_cases:
  "(\<not> isDerivedFrom (getTypeId from) TPropertyBoolList \<longrightarrow>
     PropertyBoolList_Paste from pbl = Throws BadCast pbl)
   \<and> (isDerivedFrom (getTypeId from) TPropertyBoolList \<longrightarrow>
     (\<exists>v. cast_PropertyBoolList from = Some v \<and>
        PropertyBoolList_Paste from pbl =
          Returns (pbl\<lparr>hooks := hooks pbl @ [AboutToSetValue, HasSetValue],
                     lValueList := v\<rparr>)))"
  by (cases "from")
    (simp_all add: PropertyBoolList_Paste_def PropertyListsT_setValues_def bracket_defs isDerivedFrom.simps)

lemma PropertyColorList_Paste_cases:
  "(\<not> isDerivedFrom (getTypeId from) TPropertyColorList \<longrightarrow>
     PropertyColorList_Paste from pcl = Throws BadCast pcl)
   \<and> (isDerivedFrom (getTypeId from) TPropertyColorList \<longrightarrow>
     (\<exists>v. cast_PropertyColorList from = Some v \<and>
        PropertyColorList_Paste from pcl =
          Returns (pcl\<lparr>hooks := hooks pcl @ [AboutToSetValue, HasSetValue],
                     lValueList := v\<rparr>)))"
  by (cases "from")
    (simp_all add: PropertyColorList_Paste_def PropertyListsT_setValues_def bracket_defs isDerivedFrom.simps)

lemma setSize_one: "setSize (Suc 0) def xs = (if xs = [] then [def] else [hd xs])"
  by (cases xs) (simp_all add: setSize_def)

lemma PropertyMaterialList_Paste_cases:
  "(\<not> isDerivedFrom (getTypeId from) TPropertyMaterialList \<longrightarrow>
     PropertyMaterialList_Paste m0 from pml = Throws BadCast pml)
   \<and> (isDerivedFrom (getTypeId from) TPropertyMaterialList \<longrightarrow>
     (\<exists>v. cast_PropertyMaterialList from = Some v \<and>
        PropertyMaterialList_Paste m0 from pml =
          Returns (pml\<lparr>hooks := hooks pml @ [AboutToSetValue, HasSetValue],
                      lValueList := (if v \<noteq> [] then v
                                     else if lValueList pml = [] then [Material_ctor m0]
                                     else [hd (lValueList pml)])\<rparr>)))"
  by (cases "from")
    (simp_all add: PropertyMaterialList_Paste_def PropertyMaterialList_setValues_def
       PropertyListsT_setValues_def setSize_one bracket_defs Let_def isDerivedFrom.simps)

lemma PropertyPersistentObject_Paste_cases:
  "(\<not> isDerivedFrom (getTypeId from) TPropertyPersistentObject \<longrightarrow>
     PropertyPersistentObject_Paste from ppo = Throws BadCast ppo)
   \<and> (isDerivedFrom (getTypeId from) TPropertyPersistentObject \<longrightarrow>
     (\<exists>s ob. cast_PropertyPersistentObject from = Some (s, ob) \<and>
        PropertyPersistentObject_Paste from ppo =
          Returns (if cValue ppo = s \<and> pObject ppo = ob then ppo
                   else ppo\<lparr>hooks := hooks ppo @ [AboutToSetValue, HasSetValue],
                            cValue := s, pObject := ob\<rparr>)))"
  by (cases "from")
    (simp_all add: PropertyPersistentObject_Paste_def bracket_defs isDerivedFrom.simps)

lemma fold_signal:
  "fold (\<lambda>i. signal (h i)) xs p = p\<lparr>hooks := hooks p @ map h xs\<rparr>"
  by (induction xs arbitrary: p) (simp_all add: signal_def)

lemma PropertyString_setValue_cases:
  "onProposedLabelChange env nv = (t, k) \<Longrightarrow>
   PropertyString_setValue env (Some nv) ps =
     (if cValue ps = nv then ps
      else if \<not> isLabel env
      then ps\<lparr>hooks := hooks ps @ [AboutToSetValue, HasSetValue], cValue := nv\<rparr>
      else if cValue ps = t then ps
      else if k \<noteq> 0 \<and> \<not> activeTransaction env
      then ps\<lparr>hooks := hooks ps
                @ [SetActiveTransaction (''Change '' @ nameInDocument env @ ''.Label'')]
                @ [AboutToSetValue, HasSetValue]
                @ map PasteChange [0..<k]
                @ [CloseActiveTransaction],
              cValue := t\<rparr>
      else ps\<lparr>hooks := hooks ps @ [AboutToSetValue, HasSetValue] @ map PasteChange [0..<k],
              cValue := t\<rparr>)"
  by (simp add: PropertyString_setValue_def Let_def fold_signal signal_def bracket_defs isDerivedFrom.simps)

lemma PropertyString_Paste_cases:
  "(\<not> isDerivedFrom (getTypeId from) TPropertyString \<longrightarrow>
     PropertyString_Paste env from ps = Throws BadCast ps)
   \<and> (isDerivedFrom (getTypeId from) TPropertyString \<longrightarrow>
     (\<exists>s t k. cast_PropertyString from = Some s \<and>
        onProposedLabelChange env (c_str s) = (t, k) \<and>
        PropertyString_Paste env from ps =
          Returns (if cValue ps = c_str s then ps
                   else if \<not> isLabel env
                   then ps\<lparr>hooks := hooks ps @ [AboutToSetValue, HasSetValue],
                           cValue := c_str s\<rparr>
                   else if cValue ps = t then ps
                   else if k \<noteq> 0 \<and> \<not> activeTransaction env
                   then ps\<lparr>hooks := hooks ps
                             @ [SetActiveTransaction (''Change '' @ nameInDocument env @ ''.Label'')]
                             @ [AboutToSetValue, HasSetValue]
                             @ map PasteChange [0..<k]
                             @ [CloseActiveTransaction],
                           cValue := t\<rparr>
                   else ps\<lparr>hooks := hooks ps @ [AboutToSetValue, HasSetValue]
                             @ map PasteChange [0..<k],
                           cValue := t\<rparr>)))"
proof (cases "isDerivedFrom (getTypeId from) TPropertyString")
  case False
  then show ?thesis
    by (cases "from") (simp_all add: PropertyString_Paste_def isDerivedFrom.simps)
next
  case True
  then obtain s where s: "cast_PropertyString from = Some s"
    by (cases "from") (simp_all add: isDerivedFrom.simps)
  obtain t k where tk: "onProposedLabelChange env (c_str s) = (t, k)"
    by (cases "onProposedLabelChange env (c_str s)")
  have r: "PropertyString_Paste env from ps =
      Returns (PropertyString_setValue env (Some (c_str s)) ps)"
    by (simp add: PropertyString_Paste_def PropertyString_setValue_string_def s)
  show ?thesis
  proof (intro conjI impI exI)
    assume "\<not> isDerivedFrom (getTypeId from) TPropertyString"
    with True show "PropertyString_Paste env from ps = Throws BadCast ps"
      by simp
  next
    show "cast_PropertyString from = Some s"
      by (rule s)
  next
    show "onProposedLabelChange env (c_str s) = (t, k)"
      by (rule tk)
  next
    show "PropertyString_Paste env from ps =
      Returns (if cValue ps = c_str s then ps
               else if \<not> isLabel env
               then ps\<lparr>hooks := hooks ps @ [AboutToSetValue, HasSetValue],
                       cValue := c_str s\<rparr>
               else if cValue ps = t then ps
               else if k \<noteq> 0 \<and> \<not> activeTransaction env
               then ps\<lparr>hooks := hooks ps
                         @ [SetActiveTransaction (''Change '' @ nameInDocument env @ ''.Label'')]
                         @ [AboutToSetValue, HasSetValue]
                         @ map PasteChange [0..<k]
                         @ [CloseActiveTransaction],
                       cValue := t\<rparr>
               else ps\<lparr>hooks := hooks ps @ [AboutToSetValue, HasSetValue]
                         @ map PasteChange [0..<k],
                       cValue := t\<rparr>)"
      unfolding r PropertyString_setValue_cases [OF tk] ..
  qed
qed

lemma c_str_whole: "CHR 0x00 \<notin> set s \<longrightarrow> c_str s = s"
  by (auto simp: c_str_def)

text \<open>
  Claim C7, as stated, fails twice. A \<^verbatim>\<open>PropertyPercent\<close> is of another concrete kind than a
  \<^verbatim>\<open>PropertyInteger\<close>, yet the cast to the base class succeeds and the paste goes through;
  and \<^verbatim>\<open>PropertyString::Paste\<close>, from a string cell with the same text, returns through
  the early exit of \<^verbatim>\<open>setValue\<close> without any notification.
\<close>

theorem C7_paste_counterexample:
  "PropertyInteger_Paste (IsPercent \<lparr>hooks = [], lValue = 50, ConstStruct_l = Some percent\<rparr>)
     \<lparr>hooks = [], lValue = 7\<rparr> =
   Returns \<lparr>hooks = [AboutToSetValue, HasSetValue], lValue = 50\<rparr>
   \<and> PropertyString_Paste no_label (IsString \<lparr>hooks = [], cValue = ''a''\<rparr>)
     \<lparr>hooks = [], cValue = ''a''\<rparr> =
   Returns \<lparr>hooks = [], cValue = ''a''\<rparr>"
  by (simp add: PropertyInteger_Paste_def PropertyString_Paste_def PropertyString_setValue_def
        PropertyString_setValue_string_def c_str_def bracket_defs no_label_def)

text \<open>
  Claim C7, amended. Each of the 18 \<^verbatim>\<open>Paste\<close> functions casts \<open>other\<close> to the class that defines
  the function; a cell of a class without a \<^verbatim>\<open>Paste\<close> of its own (\<^verbatim>\<open>PropertyIntegerConstraint\<close>,
  \<^verbatim>\<open>PropertyPercent\<close>, \<^verbatim>\<open>PropertyFloatConstraint\<close>, \<^verbatim>\<open>PropertyPrecision\<close>, \<^verbatim>\<open>PropertyFont\<close>) uses the
  function of its base class.

  \<^item> When \<open>other\<close> is neither of that class nor of a class derived from it, \<^verbatim>\<open>Paste\<close> fails with
    \<^verbatim>\<open>std::bad_cast\<close> and the value of the destination is unchanged. The nine functions that
    call \<^verbatim>\<open>aboutToSetValue\<close> before the cast (integer, path, integer set, float, UUID, map,
    bool, colour, material) have then fired the pre-hook without the post-hook; the other
    nine have fired nothing.

  \<^item> When \<open>other\<close> is of that class or of a class derived from it, those nine functions, the
    enumeration cell and the integer, float, string, bool and colour list make the value
    of the destination equal to the source's and fire exactly one bracket, whether or not
    the value changes.

  \<^item> The material list does the same for a source list that is not empty; for an empty
    source list it keeps its own first element (one default material if it has none),
    inside one bracket.

  \<^item> The persistent-object cell copies the text and the object inside one bracket, and does
    nothing when both equal the source's already.

  \<^item> The string cell takes the text of the source up to its first NUL character (the whole
    text when it has none). When that text equals its own, nothing happens. Otherwise a
    cell that is not the \<^verbatim>\<open>Label\<close> of a document object stores it inside one bracket. A
    \<^verbatim>\<open>Label\<close> cell stores the text \<open>t\<close> that \<^verbatim>\<open>onProposedLabelChange\<close> leaves, and nothing happens
    when \<open>t\<close> equals its own text; the one bracket is followed by the pastes of the \<open>k\<close>
    changes that \<^verbatim>\<open>onProposedLabelChange\<close> returned (they are pastes into other cells, taken
    to return), and when \<open>k\<close> is not 0 and no transaction is active, a transaction is opened
    before the bracket and closed after the pastes.
\<close>

theorem C7_paste:
  "(\<not> isDerivedFrom (getTypeId other) TPropertyInteger \<longrightarrow>
     PropertyInteger_Paste other pn =
       Throws BadCast (pn\<lparr>hooks := hooks pn @ [AboutToSetValue]\<rparr>))
   \<and> (isDerivedFrom (getTypeId other) TPropertyInteger \<longrightarrow>
     (\<exists>v. cast_PropertyInteger other = Some v \<and>
        PropertyInteger_Paste other pn =
          Returns (pn\<lparr>hooks := hooks pn @ [AboutToSetValue, HasSetValue],
                     lValue := v\<rparr>)))
   \<and> (\<not> isDerivedFrom (getTypeId other) TPropertyPath \<longrightarrow>
     PropertyPath_Paste other pp =
       Throws BadCast (pp\<lparr>hooks := hooks pp @ [AboutToSetValue]\<rparr>))
   \<and> (isDerivedFrom (getTypeId other) TPropertyPath \<longrightarrow>
     (\<exists>v. cast_PropertyPath other = Some v \<and>
        PropertyPath_Paste other pp =
          Returns (pp\<lparr>hooks := hooks pp @ [AboutToSetValue, HasSetValue],
                     cValue_path := v\<rparr>)))
   \<and> (\<not> isDerivedFrom (getTypeId other) TPropertyIntegerSet \<longrightarrow>
     PropertyIntegerSet_Paste other pis =
       Throws BadCast (pis\<lparr>hooks := hooks pis @ [AboutToSetValue]\<rparr>))
   \<and> (isDerivedFrom (getTypeId other) TPropertyIntegerSet \<longrightarrow>
     (\<exists>v. cast_PropertyIntegerSet other = Some v \<and>
        PropertyIntegerSet_Paste other pis =
          Returns (pis\<lparr>hooks := hooks pis @ [AboutToSetValue, HasSetValue],
                     lValueSet := v\<rparr>)))
   \<and> (\<not> isDerivedFrom (getTypeId other) TPropertyFloat \<longrightarrow>
     PropertyFloat_Paste other pf =
       Throws BadCast (pf\<lparr>hooks := hooks pf @ [AboutToSetValue]\<rparr>))
   \<and> (isDerivedFrom (getTypeId other) TPropertyFloat \<longrightarrow>
     (\<exists>v. cast_PropertyFloat other = Some v \<and>
        PropertyFloat_Paste other pf =
          Returns (pf\<lparr>hooks := hooks pf @ [AboutToSetValue, HasSetValue],
                     dValue := v\<rparr>)))
   \<and> (\<not> isDerivedFrom (getTypeId other) TPropertyUUID \<longrightarrow>
     PropertyUUID_Paste other pu =
       Throws BadCast (pu\<lparr>hooks := hooks pu @ [AboutToSetValue]\<rparr>))
   \<and> (isDerivedFrom (getTypeId other) TPropertyUUID \<longrightarrow>
     (\<exists>v. cast_PropertyUUID other = Some v \<and>
        PropertyUUID_Paste other pu =
          Returns (pu\<lparr>hooks := hooks pu @ [AboutToSetValue, HasSetValue],
                     uuid_value := v\<rparr>)))
   \<and> (\<not> isDerivedFrom (getTypeId other) TPropertyMap \<longrightarrow>
     PropertyMap_Paste other pmp =
       Throws BadCast (pmp\<lparr>hooks := hooks pmp @ [AboutToSetValue]\<rparr>))
   \<and> (isDerivedFrom (getTypeId other) TPropertyMap \<longrightarrow>
     (\<exists>v. cast_PropertyMap other = Some v \<and>
        PropertyMap_Paste other pmp =
          Returns (pmp\<lparr>hooks := hooks pmp @ [AboutToSetValue, HasSetValue],
                     lValueList_map := v\<rparr>)))
   \<and> (\<not> isDerivedFrom (getTypeId other) TPropertyBool \<longrightarrow>
     PropertyBool_Paste other pb =
       Throws BadCast (pb\<lparr>hooks := hooks pb @ [AboutToSetValue]\<rparr>))
   \<and> (isDerivedFrom (getTypeId other) TPropertyBool \<longrightarrow>
     (\<exists>v. cast_PropertyBool other = Some v \<and>
        PropertyBool_Paste other pb =
          Returns (pb\<lparr>hooks := hooks pb @ [AboutToSetValue, HasSetValue],
                     lValue_bool := v\<rparr>)))
   \<and> (\<not> isDerivedFrom (getTypeId other) TPropertyColor \<longrightarrow>
     PropertyColor_Paste other pc =
       Throws BadCast (pc\<lparr>hooks := hooks pc @ [AboutToSetValue]\<rparr>))
   \<and> (isDerivedFrom (getTypeId other) TPropertyColor \<longrightarrow>
     (\<exists>v. cast_PropertyColor other = Some v \<and>
        PropertyColor_Paste other pc =
          Returns (pc\<lparr>hooks := hooks pc @ [AboutToSetValue, HasSetValue],
                     cCol := v\<rparr>)))
   \<and> (\<not> isDerivedFrom (getTypeId other) TPropertyMaterial \<longrightarrow>
     PropertyMaterial_Paste other pm =
       Throws BadCast (pm\<lparr>hooks := hooks pm @ [AboutToSetValue]\<rparr>))
   \<and> (isDerivedFrom (getTypeId other) TPropertyMaterial \<longrightarrow>
     (\<exists>v. cast_PropertyMaterial other = Some v \<and>
        PropertyMaterial_Paste other pm =
          Returns (pm\<lparr>hooks := hooks pm @ [AboutToSetValue, HasSetValue],
                     cMat := v\<rparr>)))
   \<and> (\<not> isDerivedFrom (getTypeId other) TPropertyEnumeration \<longrightarrow>
     PropertyEnumeration_Paste other pe = Throws BadCast pe)
   \<and> (isDerivedFrom (getTypeId other) TPropertyEnumeration \<longrightarrow>
     (\<exists>v. cast_PropertyEnumeration other = Some v \<and>
        PropertyEnumeration_Paste other pe =
          Returns (pe\<lparr>hooks := hooks pe @ [AboutToSetValue, HasSetValue],
                     enum := v\<rparr>)))
   \<and> (\<not> isDerivedFrom (getTypeId other) TPropertyIntegerList \<longrightarrow>
     PropertyIntegerList_Paste other pil = Throws BadCast pil)
   \<and> (isDerivedFrom (getTypeId other) TPropertyIntegerList \<longrightarrow>
     (\<exists>v. cast_PropertyIntegerList other = Some v \<and>
        PropertyIntegerList_Paste other pil =
          Returns (pil\<lparr>hooks := hooks pil @ [AboutToSetValue, HasSetValue],
                     lValueList := v\<rparr>)))
   \<and> (\<not> isDerivedFrom (getTypeId other) TPropertyFloatList \<longrightarrow>
     PropertyFloatList_Paste other pfl = Throws BadCast pfl)
   \<and> (isDerivedFrom (getTypeId other) TPropertyFloatList \<longrightarrow>
     (\<exists>v. cast_PropertyFloatList other = Some v \<and>
        PropertyFloatList_Paste other pfl =
          Returns (pfl\<lparr>hooks := hooks pfl @ [AboutToSetValue, HasSetValue],
                     lValueList := v\<rparr>)))
   \<and> (\<not> isDerivedFrom (getTypeId other) TPropertyStringList \<longrightarrow>
     PropertyStringList_Paste other psl = Throws BadCast psl)
   \<and> (isDerivedFrom (getTypeId other) TPropertyStringList \<longrightarrow>
     (\<exists>v. cast_PropertyStringList other = Some v \<and>
        PropertyStringList_Paste other psl =
          Returns (psl\<lparr>hooks := hooks psl @ [AboutToSetValue, HasSetValue],
                     lValueList := v\<rparr>)))
   \<and> (\<not> isDerivedFrom (getTypeId other) TPropertyBoolList \<longrightarrow>
     PropertyBoolList_Paste other pbl = Throws BadCast pbl)
   \<and> (isDerivedFrom (getTypeId other) TPropertyBoolList \<longrightarrow>
     (\<exists>v. cast_PropertyBoolList other = Some v \<and>
        PropertyBoolList_Paste other pbl =
          Returns (pbl\<lparr>hooks := hooks pbl @ [AboutToSetValue, HasSetValue],
                     lValueList := v\<rparr>)))
   \<and> (\<not> isDerivedFrom (getTypeId other) TPropertyColorList \<longrightarrow>
     PropertyColorList_Paste other pcl = Throws BadCast pcl)
   \<and> (isDerivedFrom (getTypeId other) TPropertyColorList \<longrightarrow>
     (\<exists>v. cast_PropertyColorList other = Some v \<and>
        PropertyColorList_Paste other pcl =
          Returns (pcl\<lparr>hooks := hooks pcl @ [AboutToSetValue, HasSetValue],
                     lValueList := v\<rparr>)))
   \<and> (\<not> isDerivedFrom (getTypeId other) TPropertyMaterialList \<longrightarrow>
     PropertyMaterialList_Paste m0 other pml = Throws BadCast pml)
   \<and> (isDerivedFrom (getTypeId other) TPropertyMaterialList \<longrightarrow>
     (\<exists>v. cast_PropertyMaterialList other = Some v \<and>
        PropertyMaterialList_Paste m0 other pml =
          Returns (pml\<lparr>hooks := hooks pml @ [AboutToSetValue, HasSetValue],
                      lValueList := (if v \<noteq> [] then v
                                     else if lValueList pml = [] then [Material_ctor m0]
                                     else [hd (lValueList pml)])\<rparr>)))
   \<and> (\<not> isDerivedFrom (getTypeId other) TPropertyPersistentObject \<longrightarrow>
     PropertyPersistentObject_Paste other ppo = Throws BadCast ppo)
   \<and> (isDerivedFrom (getTypeId other) TPropertyPersistentObject \<longrightarrow>
     (\<exists>s ob. cast_PropertyPersistentObject other = Some (s, ob) \<and>
        PropertyPersistentObject_Paste other ppo =
          Returns (if cValue ppo = s \<and> pObject ppo = ob then ppo
                   else ppo\<lparr>hooks := hooks ppo @ [AboutToSetValue, HasSetValue],
                            cValue := s, pObject := ob\<rparr>)))
   \<and> (\<not> isDerivedFrom (getTypeId other) TPropertyString \<longrightarrow>
     PropertyString_Paste env other ps = Throws BadCast ps)
   \<and> (isDerivedFrom (getTypeId other) TPropertyString \<longrightarrow>
     (\<exists>s t k. cast_PropertyString other = Some s \<and>
        onProposedLabelChange env (c_str s) = (t, k) \<and>
        PropertyString_Paste env other ps =
          Returns (if cValue ps = c_str s then ps
                   else if \<not> isLabel env
                   then ps\<lparr>hooks := hooks ps @ [AboutToSetValue, HasSetValue],
                           cValue := c_str s\<rparr>
                   else if cValue ps = t then ps
                   else if k \<noteq> 0 \<and> \<not> activeTransaction env
                   then ps\<lparr>hooks := hooks ps
                             @ [SetActiveTransaction (''Change '' @ nameInDocument env @ ''.Label'')]
                             @ [AboutToSetValue, HasSetValue]
                             @ map PasteChange [0..<k]
                             @ [CloseActiveTransaction],
                           cValue := t\<rparr>
                   else ps\<lparr>hooks := hooks ps @ [AboutToSetValue, HasSetValue]
                             @ map PasteChange [0..<k],
                           cValue := t\<rparr>)))
   \<and> (CHR 0x00 \<notin> set s0 \<longrightarrow> c_str s0 = s0)"
  by (intro conjI
      PropertyInteger_Paste_cases [THEN conjunct1]
      PropertyInteger_Paste_cases [THEN conjunct2]
      PropertyPath_Paste_cases [THEN conjunct1]
      PropertyPath_Paste_cases [THEN conjunct2]
      PropertyIntegerSet_Paste_cases [THEN conjunct1]
      PropertyIntegerSet_Paste_cases [THEN conjunct2]
      PropertyFloat_Paste_cases [THEN conjunct1]
      PropertyFloat_Paste_cases [THEN conjunct2]
      PropertyUUID_Paste_cases [THEN conjunct1]
      PropertyUUID_Paste_cases [THEN conjunct2]
      PropertyMap_Paste_cases [THEN conjunct1]
      PropertyMap_Paste_cases [THEN conjunct2]
      PropertyBool_Paste_cases [THEN conjunct1]
      PropertyBool_Paste_cases [THEN conjunct2]
      PropertyColor_Paste_cases [THEN conjunct1]
      PropertyColor_Paste_cases [THEN conjunct2]
      PropertyMaterial_Paste_cases [THEN conjunct1]
      PropertyMaterial_Paste_cases [THEN conjunct2]
      PropertyEnumeration_Paste_cases [THEN conjunct1]
      PropertyEnumeration_Paste_cases [THEN conjunct2]
      PropertyIntegerList_Paste_cases [THEN conjunct1]
      PropertyIntegerList_Paste_cases [THEN conjunct2]
      PropertyFloatList_Paste_cases [THEN conjunct1]
      PropertyFloatList_Paste_cases [THEN conjunct2]
      PropertyStringList_Paste_cases [THEN conjunct1]
      PropertyStringList_Paste_cases [THEN conjunct2]
      PropertyBoolList_Paste_cases [THEN conjunct1]
      PropertyBoolList_Paste_cases [THEN conjunct2]
      PropertyColorList_Paste_cases [THEN conjunct1]
      PropertyColorList_Paste_cases [THEN conjunct2]
      PropertyMaterialList_Paste_cases [THEN conjunct1]
      PropertyMaterialList_Paste_cases [THEN conjunct2]
      PropertyPersistentObject_Paste_cases [THEN conjunct1]
      PropertyPersistentObject_Paste_cases [THEN conjunct2]
      PropertyString_Paste_cases [THEN conjunct1]
      PropertyString_Paste_cases [THEN conjunct2]
      c_str_whole)

text \<open>
  An integer source pasted into a percent cell (which uses \<^verbatim>\<open>PropertyInteger::Paste\<close>, so 150
  is stored as it is), into a float cell and into a string cell; a font source pasted into
  the \<^verbatim>\<open>Label\<close> of \<^verbatim>\<open>Box\<close> and into a persistent-object cell; a material list without elements
  pasted into a list of two, and a persistent object pasted into a cell that holds the
  same text and object.
\<close>

theorem C7_paste_witness:
  "PropertyInteger_Paste (IsInteger \<lparr>hooks = [], lValue = 150\<rparr> :: 32 word property_ref)
     \<lparr>hooks = [], lValue = 7, ConstStruct_l = Some percent\<rparr> =
   Returns \<lparr>hooks = [AboutToSetValue, HasSetValue], lValue = 150, ConstStruct_l = Some percent\<rparr>
   \<and> PropertyFloat_Paste (IsInteger \<lparr>hooks = [], lValue = 150\<rparr> :: 32 word property_ref)
       \<lparr>hooks = [], dValue = 7\<rparr> =
     Throws BadCast \<lparr>hooks = [AboutToSetValue], dValue = 7\<rparr>
   \<and> PropertyString_Paste no_label
       (IsInteger \<lparr>hooks = [], lValue = 150\<rparr> :: 32 word property_ref)
       \<lparr>hooks = [], cValue = ''a''\<rparr> =
     Throws BadCast \<lparr>hooks = [], cValue = ''a''\<rparr>
   \<and> PropertyString_Paste box_label
       (IsFont \<lparr>hooks = [], cValue = ''b''\<rparr> :: 32 word property_ref)
       \<lparr>hooks = [], cValue = ''a''\<rparr> =
     Returns \<lparr>hooks = [SetActiveTransaction ''Change Box.Label'', AboutToSetValue, HasSetValue,
                        PasteChange 0, CloseActiveTransaction],
              cValue = ''b001''\<rparr>
   \<and> PropertyPersistentObject_Paste
       (IsFont \<lparr>hooks = [], cValue = ''b''\<rparr> :: 32 word property_ref)
       \<lparr>hooks = [], cValue = ''a'', pObject = None\<rparr> =
     Throws BadCast \<lparr>hooks = [], cValue = ''a'', pObject = None\<rparr>
   \<and> PropertyMaterialList_Paste plain_material
       (IsMaterialList \<lparr>hooks = [], lValueList = [], formatVersion = 3\<rparr>) two_materials =
     Returns \<lparr>hooks = [AboutToSetValue, HasSetValue], lValueList = [plain_material],
              formatVersion = 3\<rparr>
   \<and> PropertyPersistentObject_Paste
       (IsPersistentObject \<lparr>hooks = [], cValue = ''a'', pObject = Some 1\<rparr>
          :: 32 word property_ref)
       \<lparr>hooks = [], cValue = ''a'', pObject = Some 1\<rparr> =
     Returns \<lparr>hooks = [], cValue = ''a'', pObject = Some 1\<rparr>"
  using C7_paste [where other = "IsInteger \<lparr>hooks = [], lValue = 150\<rparr>"
      and pn = "\<lparr>hooks = [], lValue = 7, ConstStruct_l = Some percent\<rparr>"
      and pp = "\<lparr>hooks = [], cValue_path = ''p''\<rparr>"
      and pis = "\<lparr>hooks = [], lValueSet = {}\<rparr>"
      and pf = "\<lparr>hooks = [], dValue = 7\<rparr>"
      and pu = "\<lparr>hooks = [], uuid_value = []\<rparr>"
      and pmp = "\<lparr>hooks = [], lValueList_map = Map.empty\<rparr>"
      and pb = "\<lparr>hooks = [], lValue_bool = False\<rparr>"
      and pc = "\<lparr>hooks = [], cCol = 0 :: 32 word\<rparr>"
      and pm = "\<lparr>hooks = [], cMat = plain_material\<rparr>"
      and pe = "\<lparr>hooks = [], enum = three_labels, fullName = ''?.Mode''\<rparr>"
      and pil = "\<lparr>hooks = [], lValueList = [] :: int list\<rparr>"
      and pfl = "\<lparr>hooks = [], lValueList = [] :: real list\<rparr>"
      and psl = "\<lparr>hooks = [], lValueList = [] :: string list\<rparr>"
      and pbl = "\<lparr>hooks = [], lValueList = [] :: bool list\<rparr>"
      and pcl = "\<lparr>hooks = [], lValueList = [] :: 32 word list\<rparr>"
      and pml = two_materials
      and ?m0.0 = plain_material
      and ppo = "\<lparr>hooks = [], cValue = ''a'', pObject = None\<rparr>"
      and ps = "\<lparr>hooks = [], cValue = ''a''\<rparr>"
      and env = no_label
      and ?s0.0 = "''a''"]
    C7_paste [where other = "IsFont \<lparr>hooks = [], cValue = ''b''\<rparr>"
      and pn = "\<lparr>hooks = [], lValue = 7\<rparr>"
      and pp = "\<lparr>hooks = [], cValue_path = ''p''\<rparr>"
      and pis = "\<lparr>hooks = [], lValueSet = {}\<rparr>"
      and pf = "\<lparr>hooks = [], dValue = 7\<rparr>"
      and pu = "\<lparr>hooks = [], uuid_value = []\<rparr>"
      and pmp = "\<lparr>hooks = [], lValueList_map = Map.empty\<rparr>"
      and pb = "\<lparr>hooks = [], lValue_bool = False\<rparr>"
      and pc = "\<lparr>hooks = [], cCol = 0 :: 32 word\<rparr>"
      and pm = "\<lparr>hooks = [], cMat = plain_material\<rparr>"
      and pe = "\<lparr>hooks = [], enum = three_labels, fullName = ''?.Mode''\<rparr>"
      and pil = "\<lparr>hooks = [], lValueList = [] :: int list\<rparr>"
      and pfl = "\<lparr>hooks = [], lValueList = [] :: real list\<rparr>"
      and psl = "\<lparr>hooks = [], lValueList = [] :: string list\<rparr>"
      and pbl = "\<lparr>hooks = [], lValueList = [] :: bool list\<rparr>"
      and pcl = "\<lparr>hooks = [], lValueList = [] :: 32 word list\<rparr>"
      and pml = two_materials
      and ?m0.0 = plain_material
      and ppo = "\<lparr>hooks = [], cValue = ''a'', pObject = None\<rparr>"
      and ps = "\<lparr>hooks = [], cValue = ''a''\<rparr>"
      and env = box_label
      and ?s0.0 = "''a''"]
    C7_paste [where other = "IsMaterialList \<lparr>hooks = [], lValueList = [], formatVersion = 3\<rparr>"
      and pn = "\<lparr>hooks = [], lValue = 7\<rparr>"
      and pp = "\<lparr>hooks = [], cValue_path = ''p''\<rparr>"
      and pis = "\<lparr>hooks = [], lValueSet = {}\<rparr>"
      and pf = "\<lparr>hooks = [], dValue = 7\<rparr>"
      and pu = "\<lparr>hooks = [], uuid_value = []\<rparr>"
      and pmp = "\<lparr>hooks = [], lValueList_map = Map.empty\<rparr>"
      and pb = "\<lparr>hooks = [], lValue_bool = False\<rparr>"
      and pc = "\<lparr>hooks = [], cCol = 0 :: 32 word\<rparr>"
      and pm = "\<lparr>hooks = [], cMat = plain_material\<rparr>"
      and pe = "\<lparr>hooks = [], enum = three_labels, fullName = ''?.Mode''\<rparr>"
      and pil = "\<lparr>hooks = [], lValueList = [] :: int list\<rparr>"
      and pfl = "\<lparr>hooks = [], lValueList = [] :: real list\<rparr>"
      and psl = "\<lparr>hooks = [], lValueList = [] :: string list\<rparr>"
      and pbl = "\<lparr>hooks = [], lValueList = [] :: bool list\<rparr>"
      and pcl = "\<lparr>hooks = [], lValueList = [] :: 32 word list\<rparr>"
      and pml = two_materials
      and ?m0.0 = plain_material
      and ppo = "\<lparr>hooks = [], cValue = ''a'', pObject = None\<rparr>"
      and ps = "\<lparr>hooks = [], cValue = ''a''\<rparr>"
      and env = no_label
      and ?s0.0 = "''a''"]
    C7_paste [where other = "IsPersistentObject \<lparr>hooks = [], cValue = ''a'', pObject = Some 1\<rparr>"
      and pn = "\<lparr>hooks = [], lValue = 7\<rparr>"
      and pp = "\<lparr>hooks = [], cValue_path = ''p''\<rparr>"
      and pis = "\<lparr>hooks = [], lValueSet = {}\<rparr>"
      and pf = "\<lparr>hooks = [], dValue = 7\<rparr>"
      and pu = "\<lparr>hooks = [], uuid_value = []\<rparr>"
      and pmp = "\<lparr>hooks = [], lValueList_map = Map.empty\<rparr>"
      and pb = "\<lparr>hooks = [], lValue_bool = False\<rparr>"
      and pc = "\<lparr>hooks = [], cCol = 0 :: 32 word\<rparr>"
      and pm = "\<lparr>hooks = [], cMat = plain_material\<rparr>"
      and pe = "\<lparr>hooks = [], enum = three_labels, fullName = ''?.Mode''\<rparr>"
      and pil = "\<lparr>hooks = [], lValueList = [] :: int list\<rparr>"
      and pfl = "\<lparr>hooks = [], lValueList = [] :: real list\<rparr>"
      and psl = "\<lparr>hooks = [], lValueList = [] :: string list\<rparr>"
      and pbl = "\<lparr>hooks = [], lValueList = [] :: bool list\<rparr>"
      and pcl = "\<lparr>hooks = [], lValueList = [] :: 32 word list\<rparr>"
      and pml = two_materials
      and ?m0.0 = plain_material
      and ppo = "\<lparr>hooks = [], cValue = ''a'', pObject = Some 1\<rparr>"
      and ps = "\<lparr>hooks = [], cValue = ''a''\<rparr>"
      and env = no_label
      and ?s0.0 = "''a''"]
  by (simp add: isDerivedFrom.simps box_label_def no_label_def c_str_def two_materials_def)

subsection \<open>C8: the step of a descriptor installed from a tuple or dict\<close>

text \<open>
  Claim C8, as stated, fails: the float cell compares the step with
  \<^verbatim>\<open>std::numeric_limits<double>::epsilon()\<close>, not with zero, so the step \<open>2\<^sup>-\<^sup>5\<^sup>3\<close>, which
  is greater than zero, is rejected.
\<close>

theorem C8_small_positive_step_rejected:
  "(0 :: real) < 1 / 2 ^ 53
   \<and> PropertyFloatConstraint_setPyObject real_of_int
       (PyTuple [PyFloat 1, PyFloat 0, PyFloat 10, PyFloat (1 / 2 ^ 53)])
       \<lparr>hooks = [], dValue = 0, ConstStruct_d = None\<rparr> =
     Throws (ValueError ''Step size must be greater than zero'')
       \<lparr>hooks = [], dValue = 0, ConstStruct_d = None\<rparr>"
  by (simp add: install_d_def DBL_EPSILON_def)

text \<open>
  Claim C8, amended. When the tuple or dict parses to \<open>(value, min, max, step)\<close>: the float
  cell throws the validation error if and only if \<open>step\<close> is below the machine epsilon
  \<open>2\<^sup>-\<^sup>5\<^sup>2\<close>, and otherwise installs an owned descriptor with that step; the integer cell
  never rejects the step and installs the step \<open>max 1 step\<close>, which is at least 1. Both
  store the value bounded by the new descriptor.
\<close>

theorem C8_step_validation:
  fixes pl :: "'a PropertyIntegerConstraint_scheme" and pd :: "'b PropertyFloatConstraint_scheme"
  shows "(\<forall>v lo hi st. ParseTuple4 (conv_d rnd) t = Some (v, lo, hi, st) \<longrightarrow>
            PropertyFloatConstraint_setPyObject rnd (PyTuple t) pd =
              (if st < DBL_EPSILON
               then Throws (ValueError ''Step size must be greater than zero'') pd
               else Returns (pd\<lparr>hooks := hooks pd @ [AboutToSetValue, HasSetValue],
                      dValue := bound_by \<lparr>LowerBound = lo, UpperBound = hi, StepSize = st,
                                           candelete = True\<rparr> v,
                      ConstStruct_d := Some \<lparr>LowerBound = lo, UpperBound = hi, StepSize = st,
                                             candelete = True\<rparr>\<rparr>)))
       \<and> (\<forall>v lo hi st. ParseKeywords4 (conv_d rnd) d (0, - DBL_MAX, DBL_MAX, 1) = Some (v, lo, hi, st) \<longrightarrow>
            PropertyFloatConstraint_setPyObject rnd (PyDict d) pd =
              (if st < DBL_EPSILON
               then Throws (ValueError ''Step size must be greater than zero'') pd
               else Returns (pd\<lparr>hooks := hooks pd @ [AboutToSetValue, HasSetValue],
                      dValue := bound_by \<lparr>LowerBound = lo, UpperBound = hi, StepSize = st,
                                           candelete = True\<rparr> v,
                      ConstStruct_d := Some \<lparr>LowerBound = lo, UpperBound = hi, StepSize = st,
                                             candelete = True\<rparr>\<rparr>)))
       \<and> (\<forall>v lo hi st. ParseTuple4 conv_l t = Some (v, lo, hi, st) \<longrightarrow>
            1 \<le> max 1 st \<and>
            PropertyIntegerConstraint_setPyObject (PyTuple t) pl =
              Returns (pl\<lparr>hooks := hooks pl @ [AboutToSetValue, HasSetValue],
                      lValue := bound_by \<lparr>LowerBound = lo, UpperBound = hi, StepSize = max 1 st,
                                           candelete = True\<rparr> v,
                      ConstStruct_l := Some \<lparr>LowerBound = lo, UpperBound = hi,
                                             StepSize = max 1 st, candelete = True\<rparr>\<rparr>))
       \<and> (\<forall>v lo hi st. ParseKeywords4 conv_l d (0, INT_MIN, INT_MAX, 1) = Some (v, lo, hi, st) \<longrightarrow>
            1 \<le> max 1 st \<and>
            PropertyIntegerConstraint_setPyObject (PyDict d) pl =
              Returns (pl\<lparr>hooks := hooks pl @ [AboutToSetValue, HasSetValue],
                      lValue := bound_by \<lparr>LowerBound = lo, UpperBound = hi, StepSize = max 1 st,
                                           candelete = True\<rparr> v,
                      ConstStruct_l := Some \<lparr>LowerBound = lo, UpperBound = hi,
                                             StepSize = max 1 st, candelete = True\<rparr>\<rparr>))"
  by (intro conjI allI impI;
      simp add: install_d_def install_l_def bracket_defs Let_def
        PropertyFloatConstraint_setConstraints_def PropertyIntegerConstraint_setConstraints_def
        del: ParseKeywords4.simps)

text \<open>
  The step \<open>2\<^sup>-\<^sup>5\<^sup>2\<close> is accepted and the step 0 rejected by the float cell; the integer
  cell turns the steps \<open>-5\<close> and 0 into 1.
\<close>

theorem C8_step_validation_witness:
  "PropertyFloatConstraint_setPyObject real_of_int
       (PyTuple [PyFloat 12, PyFloat 0, PyFloat 10, PyFloat (1 / 2 ^ 52)])
       \<lparr>hooks = [], dValue = 0, ConstStruct_d = None\<rparr> =
     Returns \<lparr>hooks = [AboutToSetValue, HasSetValue], dValue = 10, ConstStruct_d =
       Some \<lparr>LowerBound = 0, UpperBound = 10, StepSize = 1 / 2 ^ 52, candelete = True\<rparr>\<rparr>
   \<and> PropertyFloatConstraint_setPyObject real_of_int
       (PyDict [(''value'', PyFloat 12), (''step'', PyLong 0)])
       \<lparr>hooks = [], dValue = 0, ConstStruct_d = None\<rparr> =
     Throws (ValueError ''Step size must be greater than zero'')
       \<lparr>hooks = [], dValue = 0, ConstStruct_d = None\<rparr>
   \<and> PropertyIntegerConstraint_setPyObject
       (PyTuple [PyLong 12, PyLong 0, PyLong 10, PyLong (- 5)])
       \<lparr>hooks = [], lValue = 0, ConstStruct_l = None\<rparr> =
     Returns \<lparr>hooks = [AboutToSetValue, HasSetValue], lValue = 10, ConstStruct_l =
       Some \<lparr>LowerBound = 0, UpperBound = 10, StepSize = 1, candelete = True\<rparr>\<rparr>
   \<and> PropertyIntegerConstraint_setPyObject
       (PyDict [(''value'', PyLong 12), (''max'', PyLong 10), (''step'', PyLong 0)])
       \<lparr>hooks = [], lValue = 0, ConstStruct_l = None\<rparr> =
     Returns \<lparr>hooks = [AboutToSetValue, HasSetValue], lValue = 10, ConstStruct_l =
       Some \<lparr>LowerBound = INT_MIN, UpperBound = 10, StepSize = 1, candelete = True\<rparr>\<rparr>"
  using C8_step_validation [where rnd = real_of_int
      and t = "[PyFloat 12, PyFloat 0, PyFloat 10, PyFloat (1 / 2 ^ 52)]"
      and d = "[(''value'', PyFloat 12), (''step'', PyLong 0)]"
      and pd = "\<lparr>hooks = [], dValue = 0, ConstStruct_d = None\<rparr>"
      and pl = "\<lparr>hooks = [], lValue = 0, ConstStruct_l = None\<rparr>"]
    C8_step_validation [where rnd = real_of_int
      and t = "[PyLong 12, PyLong 0, PyLong 10, PyLong (- 5)]"
      and d = "[(''value'', PyLong 12), (''max'', PyLong 10), (''step'', PyLong 0)]"
      and pd = "\<lparr>hooks = [], dValue = 0, ConstStruct_d = None\<rparr>"
      and pl = "\<lparr>hooks = [], lValue = 0, ConstStruct_l = None\<rparr>"]
  by (simp add: opt_kw_def DBL_EPSILON_def DBL_MAX_def bound_by_def LONG_MIN_def LONG_MAX_def
        INT_MIN_def int_to_double_def)

subsection \<open>C9: the two hooks of setEnums and setEnumVector\<close>

text \<open>
  Claim C9. \<^verbatim>\<open>setEnums\<close> and \<^verbatim>\<open>setEnumVector\<close> replace the label set; when the full name of
  the cell starts with \<^verbatim>\<open>?\<close> (the cell is not attached) neither hook fires, otherwise
  \<^verbatim>\<open>aboutToSetValue\<close> fires before and \<^verbatim>\<open>hasSetValue\<close> after the replacement; in no case
  does exactly one of the two fire.
\<close>

theorem C9_setEnums_hooks:
  fixes p :: "'a PropertyEnumeration_scheme"
  shows "(starts_with (fullName p) ''?'' \<longrightarrow>
            PropertyEnumeration_setEnums f plEnums p = p\<lparr>enum := f plEnums (enum p)\<rparr>
          \<and> PropertyEnumeration_setEnumVector g vals p = p\<lparr>enum := g vals (enum p)\<rparr>)
       \<and> (\<not> starts_with (fullName p) ''?'' \<longrightarrow>
            PropertyEnumeration_setEnums f plEnums p =
              p\<lparr>hooks := hooks p @ [AboutToSetValue, HasSetValue], enum := f plEnums (enum p)\<rparr>
          \<and> PropertyEnumeration_setEnumVector g vals p =
              p\<lparr>hooks := hooks p @ [AboutToSetValue, HasSetValue], enum := g vals (enum p)\<rparr>)
       \<and> hooks (PropertyEnumeration_setEnums f plEnums p) \<noteq> hooks p @ [AboutToSetValue]
       \<and> hooks (PropertyEnumeration_setEnums f plEnums p) \<noteq> hooks p @ [HasSetValue]
       \<and> hooks (PropertyEnumeration_setEnumVector g vals p) \<noteq> hooks p @ [AboutToSetValue]
       \<and> hooks (PropertyEnumeration_setEnumVector g vals p) \<noteq> hooks p @ [HasSetValue]"
  by (intro conjI impI;
      simp add: PropertyEnumeration_setEnums_def PropertyEnumeration_setEnumVector_def
        bracket_defs Let_def)

text \<open>An unattached cell \<^verbatim>\<open>?.Mode\<close> and an attached cell \<^verbatim>\<open>Doc#Box.Mode\<close>.\<close>

theorem C9_setEnums_hooks_witness:
  "PropertyEnumeration_setEnums replace_labels [''x'']
     \<lparr>hooks = [], enum = three_labels, fullName = ''?.Mode''\<rparr> =
     \<lparr>hooks = [], enum = three_labels\<lparr>labels := [''x'']\<rparr>, fullName = ''?.Mode''\<rparr>
   \<and> PropertyEnumeration_setEnumVector replace_labels [''x'']
     \<lparr>hooks = [], enum = three_labels, fullName = ''Doc#Box.Mode''\<rparr> =
     \<lparr>hooks = [AboutToSetValue, HasSetValue], enum = three_labels\<lparr>labels := [''x'']\<rparr>,
      fullName = ''Doc#Box.Mode''\<rparr>"
  using C9_setEnums_hooks [of "\<lparr>hooks = [], enum = three_labels, fullName = ''?.Mode''\<rparr>"
      replace_labels "[''x'']" replace_labels "[''x'']"]
    C9_setEnums_hooks [of "\<lparr>hooks = [], enum = three_labels, fullName = ''Doc#Box.Mode''\<rparr>"
      replace_labels "[''x'']" replace_labels "[''x'']"]
  by (simp add: starts_with_def replace_labels_def)

subsection \<open>C10: the dynamic value of an enumeration cell\<close>

text \<open>
  Claim C10. For an enumeration cell with an invalid selection \<^verbatim>\<open>getPyObject\<close> returns
  \<^verbatim>\<open>None\<close> and does not fail, although \<^verbatim>\<open>getValueAsString\<close> on the same cell throws a
  runtime error; for a valid selection \<^verbatim>\<open>getPyObject\<close> returns the label at the selected
  index as a string.
\<close>

theorem C10_getPyObject_invalid_is_None:
  fixes p :: "'a PropertyEnumeration_scheme"
  shows "(\<not> isValid (enum p) \<longrightarrow>
            PropertyEnumeration_getPyObject p = Inr PyNone
          \<and> PropertyEnumeration_getValueAsString p =
              Inl (RuntimeError ''Cannot get value from invalid enumeration''))
       \<and> (isValid (enum p) \<longrightarrow>
            PropertyEnumeration_getPyObject p =
              Inr (PyUnicode (labels (enum p) ! nat (selectedIndex (enum p))))
          \<and> nat (selectedIndex (enum p)) < length (labels (enum p)))"
  by (auto simp: PropertyEnumeration_getPyObject_def PropertyEnumeration_getValueAsString_def
        getCStr_def isValid_def)

text \<open>The selections \<open>-1\<close> and 3 in a list of three labels are invalid, 1 selects \<^verbatim>\<open>b\<close>.\<close>

theorem C10_getPyObject_invalid_is_None_witness:
  "PropertyEnumeration_getPyObject
     \<lparr>hooks = [], enum = three_labels\<lparr>selectedIndex := - 1\<rparr>, fullName = ''?.Mode''\<rparr> = Inr PyNone
   \<and> PropertyEnumeration_getValueAsString
     \<lparr>hooks = [], enum = three_labels\<lparr>selectedIndex := 3\<rparr>, fullName = ''?.Mode''\<rparr> =
     Inl (RuntimeError ''Cannot get value from invalid enumeration'')
   \<and> PropertyEnumeration_getPyObject
     \<lparr>hooks = [], enum = three_labels\<lparr>selectedIndex := 3\<rparr>, fullName = ''?.Mode''\<rparr> = Inr PyNone
   \<and> PropertyEnumeration_getPyObject
     \<lparr>hooks = [], enum = three_labels, fullName = ''?.Mode''\<rparr> = Inr (PyUnicode ''b'')"
  using C10_getPyObject_invalid_is_None
      [of "\<lparr>hooks = [], enum = three_labels\<lparr>selectedIndex := - 1\<rparr>, fullName = ''?.Mode''\<rparr>"]
    C10_getPyObject_invalid_is_None
      [of "\<lparr>hooks = [], enum = three_labels\<lparr>selectedIndex := 3\<rparr>, fullName = ''?.Mode''\<rparr>"]
    C10_getPyObject_invalid_is_None
      [of "\<lparr>hooks = [], enum = three_labels, fullName = ''?.Mode''\<rparr>"]
  by (simp add: isValid_def three_labels_def)

subsection \<open>C3: the index-qualified setters of the material list\<close>

lemma set_at_append:
  assumes "index = - 1 \<or> index = int (length (lValueList p))"
  shows "set_at m0 assign index p =
    Returns (p\<lparr>hooks := hooks p @ [AboutToSetValue, HasSetValue],
               lValueList := lValueList p @ [assign (Material_ctor m0)]\<rparr>)"
  using assms
  by (auto simp: set_at_def verifyIndex_def resizeByOneIfNeeded_def getSize_def setSize_def
        bracket_defs Let_def nat_add_distrib)

lemma set_at_inside:
  assumes "0 \<le> index" and "index < int (length (lValueList p))"
  shows "set_at m0 assign index p =
    Returns (p\<lparr>hooks := hooks p @ [AboutToSetValue, HasSetValue],
               lValueList := (lValueList p)[nat index := assign (lValueList p ! nat index)]\<rparr>)"
  using assms
  by (simp add: set_at_def verifyIndex_def resizeByOneIfNeeded_def getSize_def bracket_defs Let_def)

lemma set_at_outside:
  assumes "index < - 1 \<or> int (length (lValueList p)) < index"
  shows "set_at m0 assign index p = Throws (RuntimeError ''index out of bound'') p"
  using assms by (auto simp: set_at_def verifyIndex_def getSize_def Let_def)

text \<open>
  Claim C3. For a material list of size \<open>n\<close> and each of the index-qualified setters
  (of a material, of a colour in its three overloads, of shininess or transparency): with
  index \<open>-1\<close> or \<open>n\<close> the call appends exactly one element, whose targeted field holds the
  value supplied, and the \<open>n\<close> elements before it are unchanged; with an index in
  \<open>[0, n)\<close> the size stays, the element at the index holds the value in the targeted
  field and every other element is unchanged; with any other index the call throws
  \<^verbatim>\<open>index out of bound\<close> and the cell (list and hooks) is as before.
\<close>

theorem C3_indexed_setter:
  fixes p :: "'c PropertyMaterialList"
  shows "(index = - 1 \<or> index = int (length (lValueList p)) \<longrightarrow>
           (\<exists>p'. PropertyMaterialList_set_indexed m0 c index p = Returns p'
              \<and> length (lValueList p') = length (lValueList p) + 1
              \<and> take (length (lValueList p)) (lValueList p') = lValueList p
              \<and> field_is c (Material_ctor m0) (lValueList p' ! length (lValueList p))
              \<and> hooks p' = hooks p @ [AboutToSetValue, HasSetValue]))
       \<and> (0 \<le> index \<and> index < int (length (lValueList p)) \<longrightarrow>
           (\<exists>p'. PropertyMaterialList_set_indexed m0 c index p = Returns p'
              \<and> length (lValueList p') = length (lValueList p)
              \<and> (\<forall>j. j < length (lValueList p) \<and> j \<noteq> nat index \<longrightarrow>
                    lValueList p' ! j = lValueList p ! j)
              \<and> field_is c (lValueList p ! nat index) (lValueList p' ! nat index)
              \<and> hooks p' = hooks p @ [AboutToSetValue, HasSetValue]))
       \<and> (index < - 1 \<or> int (length (lValueList p)) < index \<longrightarrow>
           PropertyMaterialList_set_indexed m0 c index p =
             Throws (RuntimeError ''index out of bound'') p)"
proof (intro conjI impI)
  assume a: "index = - 1 \<or> index = int (length (lValueList p))"
  show "\<exists>p'. PropertyMaterialList_set_indexed m0 c index p = Returns p'
      \<and> length (lValueList p') = length (lValueList p) + 1
      \<and> take (length (lValueList p)) (lValueList p') = lValueList p
      \<and> field_is c (Material_ctor m0) (lValueList p' ! length (lValueList p))
      \<and> hooks p' = hooks p @ [AboutToSetValue, HasSetValue]"
    by (cases c) (simp_all add: set_at_append [OF a])
next
  assume b: "0 \<le> index \<and> index < int (length (lValueList p))"
  then have b1: "0 \<le> index" and b2: "index < int (length (lValueList p))"
    by simp_all
  then have "nat index < length (lValueList p)"
    by simp
  then show "\<exists>p'. PropertyMaterialList_set_indexed m0 c index p = Returns p'
      \<and> length (lValueList p') = length (lValueList p)
      \<and> (\<forall>j. j < length (lValueList p) \<and> j \<noteq> nat index \<longrightarrow>
            lValueList p' ! j = lValueList p ! j)
      \<and> field_is c (lValueList p ! nat index) (lValueList p' ! nat index)
      \<and> hooks p' = hooks p @ [AboutToSetValue, HasSetValue]"
    by (cases c) (simp_all add: set_at_inside [OF b1 b2])
next
  assume "index < - 1 \<or> int (length (lValueList p)) < index"
  then show "PropertyMaterialList_set_indexed m0 c index p =
      Throws (RuntimeError ''index out of bound'') p"
    by (cases c) (simp_all add: set_at_outside)
qed

text \<open>\<^verbatim>\<open>setDiffuseColor(index, col)\<close> on a list of two, at the indices \<open>-1\<close>, 2, 1, 3 and \<open>-2\<close>.\<close>

theorem C3_indexed_setter_witness:
  "PropertyMaterialList_set_indexed plain_material (SetDiffuseColor 0xFF0000FF) (- 1) two_materials =
     Returns \<lparr>hooks = [AboutToSetValue, HasSetValue],
       lValueList = [plain_material, plain_material\<lparr>uuid := ''u''\<rparr>,
                     plain_material\<lparr>diffuseColor := 0xFF0000FF\<rparr>], formatVersion = 3\<rparr>
   \<and> PropertyMaterialList_set_indexed plain_material (SetDiffuseColor 0xFF0000FF) 2 two_materials =
     Returns \<lparr>hooks = [AboutToSetValue, HasSetValue],
       lValueList = [plain_material, plain_material\<lparr>uuid := ''u''\<rparr>,
                     plain_material\<lparr>diffuseColor := 0xFF0000FF\<rparr>], formatVersion = 3\<rparr>
   \<and> PropertyMaterialList_set_indexed plain_material (SetDiffuseColor 0xFF0000FF) 1 two_materials =
     Returns \<lparr>hooks = [AboutToSetValue, HasSetValue],
       lValueList = [plain_material, plain_material\<lparr>diffuseColor := 0xFF0000FF, uuid := ''u''\<rparr>],
       formatVersion = 3\<rparr>
   \<and> PropertyMaterialList_set_indexed plain_material (SetDiffuseColor 0xFF0000FF) 3 two_materials =
     Throws (RuntimeError ''index out of bound'') two_materials
   \<and> PropertyMaterialList_set_indexed plain_material (SetDiffuseColor 0xFF0000FF) (- 2) two_materials =
     Throws (RuntimeError ''index out of bound'') two_materials"
proof -
  note w = C3_indexed_setter [of _ two_materials plain_material "SetDiffuseColor 0xFF0000FF"]
  have len: "length (lValueList two_materials) = 2"
    by (simp add: two_materials_def)
  have "PropertyMaterialList_set_indexed plain_material (SetDiffuseColor 0xFF0000FF) 3 two_materials =
     Throws (RuntimeError ''index out of bound'') two_materials"
    using w [of 3] by (simp add: len)
  moreover have "PropertyMaterialList_set_indexed plain_material (SetDiffuseColor 0xFF0000FF) (- 2) two_materials =
     Throws (RuntimeError ''index out of bound'') two_materials"
    using w [of "- 2"] by (simp add: len)
  ultimately show ?thesis
    by (simp add: set_at_def verifyIndex_def resizeByOneIfNeeded_def getSize_def setSize_def
        bracket_defs Let_def two_materials_def Material_ctor_def plain_material_def)
qed

subsection \<open>C4: the list is never empty\<close>

text \<open>
  Claim C4 holds for \<^verbatim>\<open>setValues\<close>, \<^verbatim>\<open>setValue\<close>, the setters with and without index,
  \<^verbatim>\<open>Paste\<close> and \<^verbatim>\<open>RestoreDocFile\<close>, and fails for \<^verbatim>\<open>setDiffuseColors\<close> and
  \<^verbatim>\<open>setTransparencies\<close>: given an empty vector they resize the list to zero elements and
  return, where \<^verbatim>\<open>setValues\<close> given an empty vector keeps one element.
\<close>

theorem C4_setDiffuseColors_empties_list:
  "PropertyMaterialList_setDiffuseColors []
     \<lparr>hooks = [], lValueList = [plain_material], formatVersion = 3\<rparr> =
   Returns \<lparr>hooks = [AboutToSetValue, HasSetValue], lValueList = [], formatVersion = 3\<rparr>
   \<and> PropertyMaterialList_setTransparencies []
     \<lparr>hooks = [], lValueList = [plain_material], formatVersion = 3\<rparr> =
   Returns \<lparr>hooks = [AboutToSetValue, HasSetValue], lValueList = [], formatVersion = 3\<rparr>
   \<and> PropertyMaterialList_setValues plain_material []
     \<lparr>hooks = [], lValueList = [plain_material], formatVersion = 3\<rparr> =
   \<lparr>hooks = [AboutToSetValue, HasSetValue], lValueList = [plain_material], formatVersion = 3\<rparr>"
  by (simp add: PropertyMaterialList_setDiffuseColors_def PropertyMaterialList_setTransparencies_def
        PropertyMaterialList_setValues_def setSize_def bracket_defs)

text \<open>The other mutators leave at least one element.\<close>

lemma setValues_nonempty: "lValueList (PropertyMaterialList_setValues m0 vs p) \<noteq> []"
  by (simp add: PropertyMaterialList_setValues_def PropertyListsT_setValues_def setSize_def
        bracket_defs Let_def)

lemma setValue_nonempty: "lValueList (PropertyMaterialList_setValue m0 mat p) \<noteq> []"
  by (simp add: PropertyMaterialList_setValue_def setSize_def bracket_defs Let_def)

lemma set_all_nonempty: "lValueList (set_all m0 assign p) \<noteq> []"
  by (simp add: set_all_def setMinimumSizeOne_def getSize_def setSize_def bracket_defs Let_def)

lemma set_at_nonempty: "set_at m0 assign index p = Returns p' \<Longrightarrow> lValueList p' \<noteq> []"
  by (auto simp: set_at_def verifyIndex_def resizeByOneIfNeeded_def getSize_def setSize_def
        bracket_defs Let_def split: option.splits if_splits)

lemma Paste_nonempty:
  "PropertyMaterialList_Paste m0 from p = Returns p' \<Longrightarrow> lValueList p' \<noteq> []"
  by (auto simp: PropertyMaterialList_Paste_def setValues_nonempty split: option.splits)

lemma RestoreDocFileV0_nonempty:
  "RestoreDocFileV0 setPackedValue m0 count str p = Returns p' \<Longrightarrow> lValueList p' \<noteq> []"
  by (auto simp: RestoreDocFileV0_def setValues_nonempty split: option.splits)

lemma RestoreDocFile_nonempty:
  "RestoreDocFile setPackedValue m0 str p = Returns p' \<Longrightarrow> lValueList p' \<noteq> []"
  by (auto simp: RestoreDocFile_def RestoreDocFileV3_def setValues_nonempty
        split: option.splits if_splits dest: RestoreDocFileV0_nonempty)

subsection \<open>C5: the binary file of a material list\<close>

text \<open>Four bytes and back.\<close>

lemma nat_bytes:
  "n mod 256 + (256 * (n div 256 mod 256) + (65536 * (n div 65536 mod 256) + 16777216 * (n div 16777216))) = (n::nat)"
proof -
  define q1 q2 q3 where "q1 = n div 256" and "q2 = n div 65536" and "q3 = n div 16777216"
  define r0 r1 r2 where "r0 = n mod 256" and "r1 = q1 mod 256" and "r2 = q2 mod 256"
  have "q2 = q1 div 256" "q3 = q2 div 256"
    by (simp_all add: q1_def q2_def q3_def div_mult2_eq [symmetric])
  then have "n = r0 + 256 * q1" "q1 = r1 + 256 * q2" "q2 = r2 + 256 * q3"
    by (simp_all add: r0_def r1_def r2_def q1_def)
  then have "r0 + (256 * r1 + (65536 * r2 + 16777216 * q3)) = n"
    by linarith
  then show ?thesis
    by (simp add: r0_def r1_def r2_def q1_def q2_def q3_def)
qed

lemma foldr_uint32_bytes: "foldr (\<lambda>c n. of_char c + 256 * n) (uint32_bytes w) 0 = unat w"
proof -
  have "unat w < 2 ^ 32" using unsigned_less [of w] by simp
  then have "unat w div 16777216 mod 256 = unat w div 16777216" by simp
  with nat_bytes [of "unat w"] show ?thesis
    by (simp add: uint32_bytes_def drop_bit_eq_div)
qed

lemma bytes_uint32_inverse: "bytes_uint32 (uint32_bytes w) = w"
  unfolding bytes_uint32_def foldr_uint32_bytes by simp

lemma length_uint32_bytes: "length (uint32_bytes w) = 4"
  by (simp add: uint32_bytes_def)

lemma get_put_uint32: "get_uint32 (uint32_bytes w @ rest) = Some (w, rest)"
  by (simp add: get_uint32_def length_uint32_bytes bytes_uint32_inverse)

lemma get_bytes_append: "get_bytes (length val) (val @ rest) = Some (val, rest)"
  by (simp add: get_bytes_def)

lemma unat_length: "n < 2 ^ 32 \<Longrightarrow> unat (word_of_nat n :: 32 word) = n"
  by (simp add: unat_of_nat)

text \<open>What the writer appends, and what the reader makes of it.\<close>

lemma writeString_append:
  "length val < 2 ^ 32 \<Longrightarrow> writeString val str = str @ string_bytes val"
  by (simp add: writeString_def put_uint32_def put_bytes_def unat_length Let_def string_bytes_def)

lemma readString_written:
  "length val < 2 ^ 32 \<Longrightarrow> readString (string_bytes val @ rest) = Some (val, rest)"
  by (simp add: readString_def get_put_uint32 unat_length get_bytes_append string_bytes_def)

lemma write_fixed_append: "write_fixed getPackedValue it str = str @ fixed_record getPackedValue it"
  by (simp add: write_fixed_def put_uint32_def fixed_record_def)

lemma write_strings_append:
  "strings_fit it \<Longrightarrow> write_strings it str = str @ string_record it"
  by (simp add: write_strings_def strings_fit_def writeString_append string_record_def)

lemma fold_write_fixed:
  "fold (write_fixed getPackedValue) xs str = str @ concat (map (fixed_record getPackedValue) xs)"
proof (induction xs arbitrary: str)
  case Nil
  show ?case by simp
next
  case (Cons it xs)
  have "fold (write_fixed getPackedValue) (it # xs) str = fold (write_fixed getPackedValue) xs (write_fixed getPackedValue it str)"
    by simp
  also have "\<dots> = write_fixed getPackedValue it str @ concat (map (fixed_record getPackedValue) xs)"
    by (rule Cons.IH)
  finally show ?case
    using write_fixed_append [of getPackedValue it str] by simp
qed

lemma fold_write_strings:
  "\<forall>it \<in> set xs. strings_fit it \<Longrightarrow>
   fold write_strings xs str = str @ concat (map string_record xs)"
proof (induction xs arbitrary: str)
  case Nil
  show ?case by simp
next
  case (Cons it xs)
  then show ?case
    by (simp add: write_strings_append)
qed

lemma read_fixed_step:
  "read_fixed setPackedValue m0 (Suc n) (fixed_record getPackedValue it @ rest) =
     read_fixed setPackedValue m0 n rest \<bind> (\<lambda>(values, str). Some (restored setPackedValue getPackedValue m0 it # values, str))"
  by (simp add: fixed_record_def get_put_uint32 restored_def Let_def)

lemma read_fixed_written:
  "read_fixed setPackedValue m0 (length xs) (concat (map (fixed_record getPackedValue) xs) @ rest) =
     Some (map (restored setPackedValue getPackedValue m0) xs, rest)"
proof (induction xs)
  case Nil
  show ?case by simp
next
  case (Cons it xs)
  show ?case
    by (simp add: read_fixed_step Cons.IH del: read_fixed.simps)
qed

lemma read_strings_step:
  "strings_fit x \<Longrightarrow>
   read_strings (y # ys) (string_record x @ rest) =
     read_strings ys rest \<bind>
       (\<lambda>(values, str). Some (y\<lparr>image := image x, imagePath := imagePath x, uuid := uuid x\<rparr> # values, str))"
  by (simp add: string_record_def strings_fit_def readString_written)

lemma read_strings_written:
  "length ys = length xs \<Longrightarrow> \<forall>it \<in> set xs. strings_fit it \<Longrightarrow>
   read_strings ys (concat (map string_record xs) @ rest) =
     Some (map2 (\<lambda>y x. y\<lparr>image := image x, imagePath := imagePath x, uuid := uuid x\<rparr>) ys xs, rest)"
proof (induction ys xs rule: list_induct2)
  case Nil
  show ?case by simp
next
  case (Cons y ys x xs)
  then show ?case
    by (simp add: read_strings_step del: read_strings.simps)
qed

lemma SaveDocFile_layout:
  "\<forall>it \<in> set (lValueList p). strings_fit it \<Longrightarrow>
   SaveDocFile getPackedValue p = legacy_file getPackedValue (lValueList p) @ concat (map string_record (lValueList p))"
  by (simp add: SaveDocFile_def put_uint32_def fold_write_fixed fold_write_strings legacy_file_def)

lemma read_fixed_legacy:
  "length xs < 2 ^ 32 \<Longrightarrow>
   get_uint32 (legacy_file getPackedValue xs @ rest) \<bind>
     (\<lambda>(count, str). read_fixed setPackedValue m0 (unat count) str) =
   Some (map (restored setPackedValue getPackedValue m0) xs, rest)"
  by (simp add: legacy_file_def get_put_uint32 unat_length read_fixed_written)

lemma strings_of_map2:
  "length ys = length xs \<Longrightarrow>
   map image (map2 (\<lambda>y x. y\<lparr>image := image x, imagePath := imagePath x, uuid := uuid x\<rparr>) ys xs) =
     map image xs
   \<and> map imagePath (map2 (\<lambda>y x. y\<lparr>image := image x, imagePath := imagePath x, uuid := uuid x\<rparr>) ys xs) =
     map imagePath xs
   \<and> map uuid (map2 (\<lambda>y x. y\<lparr>image := image x, imagePath := imagePath x, uuid := uuid x\<rparr>) ys xs) =
     map uuid xs"
  by (induction ys xs rule: list_induct2) simp_all

lemma RestoreDocFileV3_written:
  assumes "xs \<noteq> []" and "length xs < 2 ^ 32" and "\<forall>it \<in> set xs. strings_fit it"
  shows "RestoreDocFileV3 setPackedValue m0 (legacy_file getPackedValue xs @ concat (map string_record xs)) q =
    Returns (q\<lparr>hooks := hooks q @ [AboutToSetValue, HasSetValue],
      lValueList := map2 (\<lambda>y x. y\<lparr>image := image x, imagePath := imagePath x, uuid := uuid x\<rparr>)
        (map (restored setPackedValue getPackedValue m0) xs) xs\<rparr>)"
proof -
  have "get_uint32 (legacy_file getPackedValue xs @ concat (map string_record xs)) \<bind>
      (\<lambda>(count, str1). read_fixed setPackedValue m0 (unat count) str1 \<bind>
        (\<lambda>(values, str2). read_strings values str2)) =
    Some (map2 (\<lambda>y x. y\<lparr>image := image x, imagePath := imagePath x, uuid := uuid x\<rparr>)
        (map (restored setPackedValue getPackedValue m0) xs) xs, [])"
    using assms read_strings_written [of "map (restored setPackedValue getPackedValue m0) xs" xs "[]"]
    by (simp add: legacy_file_def get_put_uint32 unat_length read_fixed_written)
  with assms(1) show ?thesis
    by (simp add: RestoreDocFileV3_def PropertyMaterialList_setValues_def
        PropertyListsT_setValues_def bracket_defs)
qed

lemma RestoreDocFileV0_written:
  assumes "xs \<noteq> []" and "length xs < 2 ^ 32"
  shows "RestoreDocFileV0 setPackedValue m0 (word_of_nat (length xs)) (concat (map (fixed_record getPackedValue) xs)) q =
    Returns (q\<lparr>hooks := hooks q @ [AboutToSetValue, HasSetValue],
      lValueList := map (restored setPackedValue getPackedValue m0) xs\<rparr>)"
  using assms read_fixed_written [of setPackedValue m0 xs getPackedValue "[]"]
  by (simp add: RestoreDocFileV0_def unat_length PropertyMaterialList_setValues_def
        PropertyListsT_setValues_def bracket_defs)

lemma restored_strings:
  "image (restored setPackedValue getPackedValue m0 it) = [] \<and> imagePath (restored setPackedValue getPackedValue m0 it) = []
   \<and> uuid (restored setPackedValue getPackedValue m0 it) = []"
  by (simp add: restored_def Material_ctor_def Let_def)

lemma sint_small:
  assumes "n < 2 ^ 31"
  shows "\<not> sint (word_of_nat n :: 32 word) < 0"
proof -
  from assms have "n div 2 ^ 31 = 0"
    by (rule div_less)
  then have "\<not> bit n 31"
    by (simp only: bit_iff_odd) simp
  then have "\<not> bit (word_of_nat n :: 32 word) 31"
    by (simp add: bit_of_nat_iff)
  then show ?thesis
    using bit_last_iff [of "word_of_nat n :: 32 word"] by simp
qed

lemma map2_restored:
  "map2 (\<lambda>y x. y\<lparr>image := image x, imagePath := imagePath x, uuid := uuid x\<rparr>)
     (map (restored setPackedValue getPackedValue m0) xs) xs =
   map (\<lambda>it. (restored setPackedValue getPackedValue m0 it)\<lparr>image := image it, imagePath := imagePath it,
                 uuid := uuid it\<rparr>) xs"
  by (induction xs) simp_all

text \<open>
  Claim C5. For a material list (not empty, its size and the lengths of its strings within
  32 bits): \<^verbatim>\<open>SaveDocFile\<close> writes the count and the fixed fields of all elements first
  and the three strings of each element after them, in a second pass; a cell of format
  version 3 that reads this file returns and holds, element by element, the same image,
  imagePath and uuid strings (the fixed fields are the written ones, packed and unpacked);
  a cell that reads a legacy file, as version 2 or without a version, returns and holds
  elements whose three strings are those of a default-constructed material, which are
  empty.
\<close>

theorem C5_binary_round_trip:
  fixes p q :: "'c PropertyMaterialList"
  assumes "lValueList p \<noteq> []" and "length (lValueList p) < 2 ^ 32"
    and "\<forall>it \<in> set (lValueList p). strings_fit it"
  shows "SaveDocFile getPackedValue p =
           legacy_file getPackedValue (lValueList p) @ concat (map string_record (lValueList p))
       \<and> (formatVersion q = Version_3 \<longrightarrow>
           (\<exists>q'. RestoreDocFile setPackedValue m0 (SaveDocFile getPackedValue p) q = Returns q'
              \<and> lValueList q' =
                  map (\<lambda>it. (restored setPackedValue getPackedValue m0 it)\<lparr>image := image it,
                         imagePath := imagePath it, uuid := uuid it\<rparr>) (lValueList p)
              \<and> map image (lValueList q') = map image (lValueList p)
              \<and> map imagePath (lValueList q') = map imagePath (lValueList p)
              \<and> map uuid (lValueList q') = map uuid (lValueList p)))
       \<and> (formatVersion q = Version_2
            \<or> formatVersion q \<noteq> Version_3 \<and> length (lValueList p) < 2 ^ 31 \<longrightarrow>
           (\<exists>q'. RestoreDocFile setPackedValue m0 (legacy_file getPackedValue (lValueList p)) q = Returns q'
              \<and> lValueList q' = map (restored setPackedValue getPackedValue m0) (lValueList p)
              \<and> (\<forall>m \<in> set (lValueList q'). image m = image (Material_ctor m0)
                    \<and> imagePath m = imagePath (Material_ctor m0) \<and> uuid m = uuid (Material_ctor m0)
                    \<and> image m = [] \<and> imagePath m = [] \<and> uuid m = [])))"
proof (intro conjI impI)
  show layout: "SaveDocFile getPackedValue p =
      legacy_file getPackedValue (lValueList p) @ concat (map string_record (lValueList p))"
    using assms(3) by (rule SaveDocFile_layout)
  {
    assume "formatVersion q = Version_3"
    then have "RestoreDocFile setPackedValue m0 (SaveDocFile getPackedValue p) q =
        RestoreDocFileV3 setPackedValue m0 (SaveDocFile getPackedValue p) q"
      by (simp add: RestoreDocFile_def Version_2_def Version_3_def)
    also have "\<dots> = Returns (q\<lparr>hooks := hooks q @ [AboutToSetValue, HasSetValue],
        lValueList := map (\<lambda>it. (restored setPackedValue getPackedValue m0 it)\<lparr>image := image it,
          imagePath := imagePath it, uuid := uuid it\<rparr>) (lValueList p)\<rparr>)"
      unfolding layout using assms
      by (simp add: RestoreDocFileV3_written map2_restored)
    finally show "\<exists>q'. RestoreDocFile setPackedValue m0 (SaveDocFile getPackedValue p) q = Returns q'
        \<and> lValueList q' =
            map (\<lambda>it. (restored setPackedValue getPackedValue m0 it)\<lparr>image := image it,
                   imagePath := imagePath it, uuid := uuid it\<rparr>) (lValueList p)
        \<and> map image (lValueList q') = map image (lValueList p)
        \<and> map imagePath (lValueList q') = map imagePath (lValueList p)
        \<and> map uuid (lValueList q') = map uuid (lValueList p)"
      by (simp add: comp_def)
  }
  {
    assume v: "formatVersion q = Version_2
      \<or> formatVersion q \<noteq> Version_3 \<and> length (lValueList p) < 2 ^ 31"
    have "RestoreDocFile setPackedValue m0 (legacy_file getPackedValue (lValueList p)) q =
        RestoreDocFileV0 setPackedValue m0 (word_of_nat (length (lValueList p)))
          (concat (map (fixed_record getPackedValue) (lValueList p))) q"
    proof (cases "formatVersion q = Version_2")
      case True
      then show ?thesis
        by (simp add: RestoreDocFile_def legacy_file_def get_put_uint32)
    next
      case False
      with v have "formatVersion q \<noteq> Version_3" and "length (lValueList p) < 2 ^ 31"
        by simp_all
      with False sint_small [of "length (lValueList p)"] show ?thesis
        by (simp add: RestoreDocFile_def legacy_file_def get_put_uint32)
    qed
    also have "\<dots> = Returns (q\<lparr>hooks := hooks q @ [AboutToSetValue, HasSetValue],
        lValueList := map (restored setPackedValue getPackedValue m0) (lValueList p)\<rparr>)"
      using assms(1,2) by (rule RestoreDocFileV0_written)
    finally show "\<exists>q'. RestoreDocFile setPackedValue m0 (legacy_file getPackedValue (lValueList p)) q = Returns q'
        \<and> lValueList q' = map (restored setPackedValue getPackedValue m0) (lValueList p)
        \<and> (\<forall>m \<in> set (lValueList q'). image m = image (Material_ctor m0)
                    \<and> imagePath m = imagePath (Material_ctor m0) \<and> uuid m = uuid (Material_ctor m0)
                    \<and> image m = [] \<and> imagePath m = [] \<and> uuid m = [])"
      by (simp add: restored_strings Material_ctor_def)
  }
qed

lemma restored_plain: "restored set_packed id plain_material plain_material = plain_material"
  by (simp add: restored_def Material_ctor_def plain_material_def set_packed_def Let_def)

text \<open>
  A list of two materials, the second with the uuid \<^verbatim>\<open>u\<close>: written and read as version 3,
  and its legacy file read as version 2 and without a version.
\<close>

theorem C5_binary_round_trip_witness:
  "(\<exists>q'. RestoreDocFile set_packed plain_material (SaveDocFile id two_materials)
            \<lparr>hooks = [], lValueList = [plain_material], formatVersion = 3\<rparr> = Returns q'
      \<and> map image (lValueList q') = [[], []]
      \<and> map imagePath (lValueList q') = [[], []]
      \<and> map uuid (lValueList q') = [[], ''u''])
   \<and> (\<exists>q'. RestoreDocFile set_packed plain_material (legacy_file id (lValueList two_materials))
            \<lparr>hooks = [], lValueList = [plain_material], formatVersion = 2\<rparr> = Returns q'
      \<and> map uuid (lValueList q') = [[], []])
   \<and> (\<exists>q'. RestoreDocFile set_packed plain_material (legacy_file id (lValueList two_materials))
            \<lparr>hooks = [], lValueList = [plain_material], formatVersion = 0\<rparr> = Returns q'
      \<and> map uuid (lValueList q') = [[], []])"
proof -
  have h: "lValueList two_materials \<noteq> []" "length (lValueList two_materials) < 2 ^ 32"
    "\<forall>it \<in> set (lValueList two_materials). strings_fit it"
    by (simp_all add: two_materials_def strings_fit_def plain_material_def)
  have s: "map image (lValueList two_materials) = [[], []]"
    "map imagePath (lValueList two_materials) = [[], []]"
    "map uuid (lValueList two_materials) = [[], ''u'']"
    by (simp_all add: two_materials_def plain_material_def)
  have r: "map uuid (map (restored set_packed id plain_material) (lValueList two_materials)) = [[], []]"
    by (simp add: two_materials_def restored_strings)
  note w = C5_binary_round_trip [OF h, where getPackedValue = id and setPackedValue = set_packed
      and ?m0.0 = plain_material]
  from w [where q = "\<lparr>hooks = [], lValueList = [plain_material], formatVersion = 3\<rparr>"]
  obtain q3 where "RestoreDocFile set_packed plain_material (SaveDocFile id two_materials)
        \<lparr>hooks = [], lValueList = [plain_material], formatVersion = 3\<rparr> = Returns q3"
    and "map image (lValueList q3) = [[], []]" and "map imagePath (lValueList q3) = [[], []]"
    and "map uuid (lValueList q3) = [[], ''u'']"
    unfolding s by (auto simp: Version_3_def)
  moreover
  from w [where q = "\<lparr>hooks = [], lValueList = [plain_material], formatVersion = 2\<rparr>"]
  obtain q2 where "RestoreDocFile set_packed plain_material (legacy_file id (lValueList two_materials))
        \<lparr>hooks = [], lValueList = [plain_material], formatVersion = 2\<rparr> = Returns q2"
    and "map uuid (lValueList q2) = [[], []]"
    using r by (auto simp: Version_2_def)
  moreover
  from w [where q = "\<lparr>hooks = [], lValueList = [plain_material], formatVersion = 0\<rparr>"]
  obtain q0 where "RestoreDocFile set_packed plain_material (legacy_file id (lValueList two_materials))
        \<lparr>hooks = [], lValueList = [plain_material], formatVersion = 0\<rparr> = Returns q0"
    and "map uuid (lValueList q0) = [[], []]"
    using r h(2) by (auto simp: Version_2_def Version_3_def two_materials_def)
  ultimately show ?thesis
    by simp
qed

lemma get_uint32_length: "get_uint32 str = Some (v, str1) \<Longrightarrow> length str = length str1 + 4"
  by (auto simp: get_uint32_def split: if_splits)

lemma read_fixed_needs:
  "read_fixed setPackedValue m0 n str = Some (vals, rest) \<Longrightarrow> 24 * n \<le> length str"
proof (induction n arbitrary: str vals rest)
  case 0
  show ?case by simp
next
  case (Suc n)
  from Suc.prems obtain v1 s1 v2 s2 v3 s3 v4 s4 f1 s5 f2 s6 vs s7 where
    g: "get_uint32 str = Some (v1, s1)" "get_uint32 s1 = Some (v2, s2)"
       "get_uint32 s2 = Some (v3, s3)" "get_uint32 s3 = Some (v4, s4)"
       "get_uint32 s4 = Some (f1, s5)" "get_uint32 s5 = Some (f2, s6)"
    and r: "read_fixed setPackedValue m0 n s6 = Some (vs, s7)"
    by (auto simp: bind_eq_Some_conv)
  from Suc.IH [OF r] g [THEN get_uint32_length] show ?case
    by simp
qed

subsection \<open>C6: the restore without a format version\<close>

text \<open>
  Claim C6, as stated, fails: when the first value is negative the reader does not take
  that value as the element count; it reads the next value and takes that one. The file
  below starts with \<open>-1\<close> and holds one element: the cell ends with one element, where the
  count \<open>-1\<close>, read as unsigned, would ask for 4294967295 elements and exhaust the file.
\<close>

theorem C6_negative_value_is_not_the_count:
  "sint (- 1 :: 32 word) < 0
   \<and> RestoreDocFile set_packed plain_material dev_file
       \<lparr>hooks = [], lValueList = [plain_material\<lparr>uuid := ''u''\<rparr>], formatVersion = 0\<rparr> =
     Returns \<lparr>hooks = [AboutToSetValue, HasSetValue], lValueList = [plain_material],
       formatVersion = 0\<rparr>
   \<and> RestoreDocFileV0 set_packed plain_material (- 1) (legacy_file id [plain_material])
       \<lparr>hooks = [], lValueList = [plain_material\<lparr>uuid := ''u''\<rparr>], formatVersion = 0\<rparr> =
     Throws StreamExhausted
       \<lparr>hooks = [], lValueList = [plain_material\<lparr>uuid := ''u''\<rparr>], formatVersion = 0\<rparr>"
proof (intro conjI)
  show "sint (- 1 :: 32 word) < 0"
    by simp
  have "RestoreDocFile set_packed plain_material dev_file
       \<lparr>hooks = [], lValueList = [plain_material\<lparr>uuid := ''u''\<rparr>], formatVersion = 0\<rparr> =
     RestoreDocFileV0 set_packed plain_material (word_of_nat (length [plain_material]))
       (concat (map (fixed_record id) [plain_material]))
       \<lparr>hooks = [], lValueList = [plain_material\<lparr>uuid := ''u''\<rparr>], formatVersion = 0\<rparr>"
    by (simp add: RestoreDocFile_def dev_file_def get_put_uint32 legacy_file_def
        Version_2_def Version_3_def)
  also have "\<dots> = Returns (\<lparr>hooks = [], lValueList = [plain_material\<lparr>uuid := ''u''\<rparr>],
       formatVersion = 0\<rparr>\<lparr>hooks := [] @ [AboutToSetValue, HasSetValue],
       lValueList := map (restored set_packed id plain_material) [plain_material]\<rparr>)"
    using RestoreDocFileV0_written [of "[plain_material]" set_packed plain_material id
        "\<lparr>hooks = [], lValueList = [plain_material\<lparr>uuid := ''u''\<rparr>], formatVersion = 0\<rparr>"]
    by simp
  finally show "RestoreDocFile set_packed plain_material dev_file
       \<lparr>hooks = [], lValueList = [plain_material\<lparr>uuid := ''u''\<rparr>], formatVersion = 0\<rparr> =
     Returns \<lparr>hooks = [AboutToSetValue, HasSetValue], lValueList = [plain_material],
       formatVersion = 0\<rparr>"
    by (simp add: restored_plain)
  have "length (legacy_file id [plain_material]) = 28"
    by (simp add: legacy_file_def fixed_record_def length_uint32_bytes)
  moreover have "unat (- 1 :: 32 word) = 4294967295"
    by (simp add: unsigned_minus_1_eq_mask mask_eq_exp_minus_1)
  ultimately have "read_fixed set_packed plain_material (unat (- 1 :: 32 word)) (legacy_file id [plain_material]) = None"
    using read_fixed_needs [of set_packed plain_material "unat (- 1 :: 32 word)"
        "legacy_file id [plain_material]"]
    by (cases "read_fixed set_packed plain_material (unat (- 1 :: 32 word)) (legacy_file id [plain_material])")
      auto
  then show "RestoreDocFileV0 set_packed plain_material (- 1) (legacy_file id [plain_material])
       \<lparr>hooks = [], lValueList = [plain_material\<lparr>uuid := ''u''\<rparr>], formatVersion = 0\<rparr> =
     Throws StreamExhausted
       \<lparr>hooks = [], lValueList = [plain_material\<lparr>uuid := ''u''\<rparr>], formatVersion = 0\<rparr>"
    by (simp add: RestoreDocFileV0_def)
qed

text \<open>
  Claim C6, amended. When the restore runs without a known format version (neither 2 nor
  3): a negative first value marks a file of a development build, the value itself is
  dropped and the next 32-bit value is the version-0 element count; a first value that is
  not negative is itself the version-0 element count.
\<close>

theorem C6_restore_without_version:
  fixes p :: "'c PropertyMaterialList"
  assumes "formatVersion p \<noteq> Version_2" and "formatVersion p \<noteq> Version_3"
  shows "(sint version < 0 \<longrightarrow>
            RestoreDocFile setPackedValue m0 (uint32_bytes version @ uint32_bytes count @ rest) p =
              RestoreDocFileV0 setPackedValue m0 count rest p)
       \<and> (0 \<le> sint version \<longrightarrow>
            RestoreDocFile setPackedValue m0 (uint32_bytes version @ rest) p =
              RestoreDocFileV0 setPackedValue m0 version rest p)"
  using assms by (simp add: RestoreDocFile_def get_put_uint32)

text \<open>The tag \<open>-1\<close> followed by the count 1, and the count 1 alone, before one record.\<close>

theorem C6_restore_without_version_witness:
  "RestoreDocFile set_packed plain_material
       (uint32_bytes (- 1) @ uint32_bytes 1 @ fixed_record id plain_material)
       \<lparr>hooks = [], lValueList = [plain_material], formatVersion = 0\<rparr> =
     RestoreDocFileV0 set_packed plain_material 1 (fixed_record id plain_material)
       \<lparr>hooks = [], lValueList = [plain_material], formatVersion = 0\<rparr>
   \<and> RestoreDocFile set_packed plain_material
       (uint32_bytes 1 @ fixed_record id plain_material)
       \<lparr>hooks = [], lValueList = [plain_material], formatVersion = 0\<rparr> =
     RestoreDocFileV0 set_packed plain_material 1 (fixed_record id plain_material)
       \<lparr>hooks = [], lValueList = [plain_material], formatVersion = 0\<rparr>"
  using C6_restore_without_version [of "\<lparr>hooks = [], lValueList = [plain_material], formatVersion = 0\<rparr>"
      "- 1" set_packed plain_material 1 "fixed_record id plain_material"]
    C6_restore_without_version [of "\<lparr>hooks = [], lValueList = [plain_material], formatVersion = 0\<rparr>"
      1 set_packed plain_material 1 "fixed_record id plain_material"]
  by (simp add: Version_2_def Version_3_def)

end
